theory Spec2Isabelle
  imports Main "HOL-Library.AList"
begin

section \<open>The FTC Platform MCP server: upstream client and start-up\<close>

text \<open>
  The development follows \<^verbatim>\<open>src/server.ts\<close> (class \<^verbatim>\<open>FtcMcpServer\<close>) and
  \<^verbatim>\<open>src/lib/api-client.ts\<close> (class \<^verbatim>\<open>VercelApiClient\<close>). Exceptions are values of
  type \<open>thrown\<close>; a function that may throw returns \<open>thrown + 'a\<close> with \<open>Inl\<close> for
  the exception. \<^verbatim>\<open>process.env\<close> is a map from variable names to strings: an unset
  variable is \<open>None\<close>, a variable set to the empty string is \<open>Some ''''\<close>. A string is
  the list of its code units; the code units a definition looks at are below 256.
\<close>

subsection \<open>Exceptions\<close>

text \<open>
  The values thrown in the two files are \<^verbatim>\<open>Error\<close> objects made by \<^verbatim>\<open>new Error(msg)\<close>,
  the \<^verbatim>\<open>TypeError\<close> the runtime raises on a property access or a destructuring of
  \<^verbatim>\<open>null\<close>/\<^verbatim>\<open>undefined\<close>, and the rejections of \<^verbatim>\<open>fetch\<close> and
  \<^verbatim>\<open>response.json()\<close>, which are subclasses of \<^verbatim>\<open>Error\<close> too. Each carries its
  \<^verbatim>\<open>message\<close>.
\<close>

datatype thrown = Error string | TypeError string

fun message :: "thrown \<Rightarrow> string" where
  "message (Error m) = m"
| "message (TypeError m) = m"

subsection \<open>The upstream client: constructor and status\<close>

type_synonym env = "string \<rightharpoonup> string"

record VercelApiClient =
  baseUrl :: string
  apiKey :: string

record client_status =
  configured :: bool
  status_baseUrl :: string
  hasApiKey :: bool

definition default_baseUrl :: string where
  "default_baseUrl = ''http://localhost:3000/api/mastra''"

text \<open>
  \<^verbatim>\<open>a ?? b\<close> takes \<open>b\<close> only when \<open>a\<close> is \<^verbatim>\<open>undefined\<close> (or \<^verbatim>\<open>null\<close>): an
  environment variable set to the empty string is kept as it is. \<^verbatim>\<open>!this.apiKey\<close> holds
  exactly for the empty string.
\<close>

definition new_VercelApiClient :: "env \<Rightarrow> thrown + VercelApiClient" where
  "new_VercelApiClient e =
     (let b = (case e ''VERCEL_API_BASE_URL'' of None \<Rightarrow> default_baseUrl | Some u \<Rightarrow> u);
          k = (case e ''MASTRA_API_KEY'' of None \<Rightarrow> [] | Some v \<Rightarrow> v)
      in if k = [] then Inl (Error ''MASTRA_API_KEY environment variable is required'')
         else Inr \<lparr>baseUrl = b, apiKey = k\<rparr>)"

definition getStatus :: "VercelApiClient \<Rightarrow> client_status" where
  "getStatus c =
     \<lparr>configured = (baseUrl c \<noteq> [] \<and> apiKey c \<noteq> []),
      status_baseUrl = baseUrl c,
      hasApiKey = (apiKey c \<noteq> [])\<rparr>"

subsection \<open>Server construction and \<^verbatim>\<open>main\<close>\<close>

definition js_bool :: "bool \<Rightarrow> string" where
  "js_bool b = (if b then ''true'' else ''false'')"

definition nl :: string where
  "nl = [CHR 0x0A]"

definition validateConfiguration :: "VercelApiClient \<Rightarrow> thrown + unit" where
  "validateConfiguration c =
     (let status = getStatus c
      in if \<not> configured status then
           Inl (Error (''MCP Server configuration invalid:'' @ nl
                  @ ''- Base URL: '' @ status_baseUrl status @ nl
                  @ ''- Has API Key: '' @ js_bool (hasApiKey status) @ nl @ nl
                  @ ''Please ensure VERCEL_API_BASE_URL and MASTRA_API_KEY are set in your environment.''))
         else Inr ())"

text \<open>
  \<^verbatim>\<open>parseInt(s, 10)\<close>: leading white space is skipped, one sign is read, and the
  longest run of decimal digits that follows is the value; with no digit the result is
  \<^verbatim>\<open>NaN\<close>, here \<open>None\<close>. (\<^verbatim>\<open>-0\<close> is \<open>0\<close> here: the port check below does not tell
  them apart.)
\<close>

definition white_space :: "char \<Rightarrow> bool" where
  "white_space c = (of_char c \<in> {9, 10, 11, 12, 13, 32, 160 :: nat})"

definition digit :: "char \<Rightarrow> bool" where
  "digit c = (48 \<le> (of_char c :: nat) \<and> (of_char c :: nat) \<le> 57)"

definition digits_value :: "string \<Rightarrow> nat" where
  "digits_value ds = foldl (\<lambda>a c. 10 * a + (of_char c - 48)) 0 ds"

definition parseInt :: "string \<Rightarrow> int option" where
  "parseInt s =
     (let t = dropWhile white_space s;
          negative = (case t of [] \<Rightarrow> False | c # _ \<Rightarrow> c = CHR ''-'');
          u = (case t of [] \<Rightarrow> [] | c # cs \<Rightarrow> if c = CHR ''-'' \<or> c = CHR ''+'' then cs else t);
          z = takeWhile digit u
      in if z = [] then None
         else Some (if negative then - int (digits_value z) else int (digits_value z)))"

text \<open>
  The session table \<^verbatim>\<open>this.transports\<close> maps a session identifier to a transport
  object; a transport object is named by the number of its creation. The constructor
  starts with an empty table, and reads the port as
  \<^verbatim>\<open>parseInt(process.env.MCP_PORT || '3001', 10)\<close>, where an empty \<^verbatim>\<open>MCP_PORT\<close> is
  falsy. The Express application is left out: the handlers are modelled below as
  functions of the server.
\<close>

record FtcMcpServer =
  apiClient :: VercelApiClient
  transports :: "string \<rightharpoonup> nat"
  sessionIds :: "nat \<rightharpoonup> string"
  created :: nat
  port :: "int option"

definition port_of_env :: "env \<Rightarrow> int option" where
  "port_of_env e =
     parseInt (case e ''MCP_PORT'' of None \<Rightarrow> ''3001'' | Some s \<Rightarrow> if s = [] then ''3001'' else s)"

definition new_FtcMcpServer :: "env \<Rightarrow> thrown + FtcMcpServer" where
  "new_FtcMcpServer e =
     (case new_VercelApiClient e of
        Inl err \<Rightarrow> Inl err
      | Inr c \<Rightarrow>
          (case validateConfiguration c of
             Inl err \<Rightarrow> Inl err
           | Inr _ \<Rightarrow> Inr \<lparr>apiClient = c, transports = Map.empty,
                           sessionIds = Map.empty, created = 0, port = port_of_env e\<rparr>))"

text \<open>
  \<^verbatim>\<open>start\<close> calls \<^verbatim>\<open>app.listen(this.port, ...)\<close>. Node checks the port at once and
  throws \<^verbatim>\<open>ERR_SOCKET_BAD_PORT\<close> unless it is an integer from 0 to 65535 (\<open>BadPort\<close>);
  whether the operating system then lets the process listen on that port is the
  environment's answer \<open>bind\<close>, and a refusal arrives later as an \<^verbatim>\<open>error\<close> event
  that nobody listens to (\<open>BindFailed\<close>).
\<close>

datatype started = Listening | BadPort | BindFailed

definition start :: "(nat \<Rightarrow> bool) \<Rightarrow> FtcMcpServer \<Rightarrow> started" where
  "start bind srv =
     (case port srv of
        None \<Rightarrow> BadPort
      | Some p \<Rightarrow>
          if p < 0 \<or> 65535 < p then BadPort
          else if bind (nat p) then Listening
          else BindFailed)"

datatype process = Running FtcMcpServer | Exited nat

text \<open>
  \<^verbatim>\<open>main\<close>: a failed construction and a bad port are caught by its \<^verbatim>\<open>try\<close>, logged,
  and end the process with \<^verbatim>\<open>process.exit(1)\<close>; a failed bind reaches the
  \<^verbatim>\<open>uncaughtException\<close> handler that \<^verbatim>\<open>setupErrorHandling\<close> installed, which ends the
  process with \<^verbatim>\<open>process.exit(1)\<close> too. Otherwise the server listens.
\<close>

definition main :: "(nat \<Rightarrow> bool) \<Rightarrow> env \<Rightarrow> process" where
  "main bind e =
     (case new_FtcMcpServer e of
        Inl _ \<Rightarrow> Exited 1
      | Inr srv \<Rightarrow>
          (case start bind srv of
             Listening \<Rightarrow> Running srv
           | BadPort \<Rightarrow> Exited 1
           | BindFailed \<Rightarrow> Exited 1))"

section \<open>JSON values as the handlers see them\<close>

text \<open>
  A parsed JSON value. An object is the list of its own properties, looked up with
  \<open>map_of\<close>; \<^verbatim>\<open>undefined\<close> (a missing property, a missing argument) is \<open>None\<close> of
  \<open>json option\<close>. A number is kept as what the handlers can observe of it: whether
  it is zero, and the text JavaScript prints for it (\<^verbatim>\<open>1.5\<close>, \<^verbatim>\<open>1e+21\<close>).
\<close>

datatype json = JNull | JBool bool | JNum (is_zero: bool) (printed: string) | JStr string
  | JArr "json list" | JObj "(string \<times> json) list"

text \<open>JavaScript truthiness, as used by \<^verbatim>\<open>!x\<close> and \<^verbatim>\<open>a && b\<close>.\<close>

fun truthy :: "json option \<Rightarrow> bool" where
  "truthy None = False"
| "truthy (Some JNull) = False"
| "truthy (Some (JBool b)) = b"
| "truthy (Some (JNum z p)) = (\<not> z)"
| "truthy (Some (JStr s)) = (s \<noteq> [])"
| "truthy (Some (JArr xs)) = True"
| "truthy (Some (JObj kvs)) = True"

text \<open>
  The decimal digits of a natural number: how JavaScript prints an HTTP status code and
  an array index.
\<close>

fun decimal :: "nat \<Rightarrow> string" where
  "decimal n = (if n < 10 then [char_of (48 + n)]
                else decimal (n div 10) @ [char_of (48 + n mod 10)])"

declare decimal.simps [simp del]

fun join :: "string \<Rightarrow> string list \<Rightarrow> string" where
  "join sep [] = []"
| "join sep [x] = x"
| "join sep (x # y # ys) = x @ sep @ join sep (y # ys)"

text \<open>
  The string a template literal \<^verbatim>\<open>`${v}`\<close> inserts for a value: strings as they are,
  an array as its elements joined by commas (\<^verbatim>\<open>null\<close> elements print as nothing), any
  object as \<^verbatim>\<open>[object Object]\<close>.
\<close>

fun js_String :: "json \<Rightarrow> string" where
  "js_String JNull = ''null''"
| "js_String (JBool b) = js_bool b"
| "js_String (JNum z p) = p"
| "js_String (JStr s) = s"
| "js_String (JArr xs) = join '','' (map (\<lambda>x. if x = JNull then [] else js_String x) xs)"
| "js_String (JObj kvs) = ''[object Object]''"

definition template :: "json option \<Rightarrow> string" where
  "template v = (case v of None \<Rightarrow> ''undefined'' | Some j \<Rightarrow> js_String j)"

text \<open>\<^verbatim>\<open>a ?? b\<close> on a possibly missing property: \<open>b\<close> for \<^verbatim>\<open>undefined\<close> and \<^verbatim>\<open>null\<close>.\<close>

definition nullish_or :: "json option \<Rightarrow> json \<Rightarrow> json" where
  "nullish_or v d = (case v of None \<Rightarrow> d | Some JNull \<Rightarrow> d | Some j \<Rightarrow> j)"

text \<open>
  Reading a property \<open>k\<close> of a value other than \<^verbatim>\<open>null\<close> (for the keys read here,
  none of which a prototype defines): an object gives its own property, every other
  value gives \<^verbatim>\<open>undefined\<close>. Reading a property of \<^verbatim>\<open>null\<close> throws the runtime's
  \<^verbatim>\<open>TypeError\<close>; the message is Node's.
\<close>

fun get_prop :: "json \<Rightarrow> string \<Rightarrow> json option" where
  "get_prop (JObj kvs) k = map_of kvs k"
| "get_prop v k = None"

definition null_read :: "string \<Rightarrow> thrown" where
  "null_read k = TypeError (''Cannot read properties of null (reading ''
                             @ [CHR 0x27] @ k @ [CHR 0x27] @ '')'')"

section \<open>The upstream client: requests\<close>

record http_request =
  url :: string
  http_method :: string
  headers :: "(string \<times> string) list"

text \<open>
  What \<^verbatim>\<open>fetch\<close> answers is the environment's choice: the promise rejects (network
  failure), or it resolves to a response with a status and a body; reading the body as
  text or as JSON may reject in turn.
\<close>

record http_response =
  status :: nat
  statusText :: string
  body_text :: "thrown + string"
  body_json :: "thrown + json"

datatype fetched = Rejected thrown | Resolved http_response

type_synonym fetch = "http_request \<Rightarrow> fetched"

definition ok :: "http_response \<Rightarrow> bool" where
  "ok r = (200 \<le> status r \<and> status r < 300)"

text \<open>
  The part of \<^verbatim>\<open>makeRequest\<close> after the response has arrived. The cast
  \<^verbatim>\<open>as ApiResponse<T>\<close> checks nothing, so the body is any JSON value.
\<close>

definition read_response :: "http_response \<Rightarrow> thrown + json" where
  "read_response r =
     (if \<not> ok r then
        (case body_text r of
           Inl e \<Rightarrow> Inl e
         | Inr errorText \<Rightarrow>
             Inl (Error (''API request failed: '' @ decimal (status r) @ '' '' @ statusText r
                         @ nl @ ''Response: '' @ errorText)))
      else
        (case body_json r of
           Inl e \<Rightarrow> Inl e
         | Inr d \<Rightarrow>
             if d = JNull then Inl (null_read ''success'')
             else if \<not> truthy (get_prop d ''success'') then
               Inl (Error (''API returned error: ''
                      @ js_String (nullish_or (get_prop d ''error'') (JStr ''Unknown error''))
                      @ nl @ ''Details: ''
                      @ js_String (nullish_or (get_prop d ''details'') (JStr ''No details''))))
             else
               (case get_prop d ''data'' of
                  None \<Rightarrow> Inl (Error ''API returned success but no data'')
                | Some v \<Rightarrow>
                    if \<not> truthy (Some v) then Inl (Error ''API returned success but no data'')
                    else Inr v)))"

definition upstream_result :: "fetched \<Rightarrow> thrown + json" where
  "upstream_result f = (case f of Rejected e \<Rightarrow> Inl e | Resolved r \<Rightarrow> read_response r)"

text \<open>
  \<^verbatim>\<open>makeRequest\<close> sends exactly one request. Beside its result the model returns the
  list of the requests sent, so that a theorem can say that none was.
\<close>

definition makeRequest ::
  "fetch \<Rightarrow> VercelApiClient \<Rightarrow> string \<Rightarrow> (thrown + json) \<times> http_request list" where
  "makeRequest fetch c endpoint =
     (let rq = \<lparr>url = baseUrl c @ endpoint, http_method = ''GET'',
                 headers = [(''Authorization'', ''Bearer '' @ apiKey c),
                            (''Content-Type'', ''application/json''),
                            (''User-Agent'', ''FTC-MCP-Server/1.0.0'')]\<rparr>
      in (upstream_result (fetch rq), [rq]))"

definition testConnection ::
  "fetch \<Rightarrow> VercelApiClient \<Rightarrow> (thrown + json) \<times> http_request list" where
  "testConnection fetch c = makeRequest fetch c ''/test''"

text \<open>
  The four event operations differ in the last segment of the endpoint only. Their
  parameter is typed \<^verbatim>\<open>string\<close>, but the caller passes whatever the arguments held.
\<close>

definition event_request ::
  "string \<Rightarrow> fetch \<Rightarrow> VercelApiClient \<Rightarrow> json option \<Rightarrow> (thrown + json) \<times> http_request list" where
  "event_request segment fetch c eventId =
     (if \<not> truthy eventId then (Inl (Error ''eventId is required''), [])
      else makeRequest fetch c (''/events/'' @ template eventId @ segment))"

definition getEventApplications ::
  "fetch \<Rightarrow> VercelApiClient \<Rightarrow> json option \<Rightarrow> (thrown + json) \<times> http_request list" where
  "getEventApplications = event_request ''/applications''"

definition getEventEvaluations ::
  "fetch \<Rightarrow> VercelApiClient \<Rightarrow> json option \<Rightarrow> (thrown + json) \<times> http_request list" where
  "getEventEvaluations = event_request ''/evaluations''"

definition getEvaluationCriteria ::
  "fetch \<Rightarrow> VercelApiClient \<Rightarrow> json option \<Rightarrow> (thrown + json) \<times> http_request list" where
  "getEvaluationCriteria = event_request ''/criteria''"

definition getApplicationQuestions ::
  "fetch \<Rightarrow> VercelApiClient \<Rightarrow> json option \<Rightarrow> (thrown + json) \<times> http_request list" where
  "getApplicationQuestions = event_request ''/questions''"

section \<open>The tool handlers\<close>

subsection \<open>Discovery\<close>

record tool_descriptor =
  name :: string
  description :: string
  properties :: "(string \<times> string \<times> string) list"
  required :: "string list"

text \<open>
  The \<^verbatim>\<open>ListToolsRequestSchema\<close> handler takes nothing and returns this literal; every
  \<^verbatim>\<open>inputSchema\<close> has type \<^verbatim>\<open>object\<close>, and a property is its name, its type and its
  description.
\<close>

definition listTools :: "tool_descriptor list" where
  "listTools =
     [\<lparr>name = ''test_connection'',
       description = ''Test connection to the FTC Platform API and verify the MCP server is working properly'',
       properties = [],
       required = []\<rparr>,
      \<lparr>name = ''get_event_applications'',
       description = ''Get all applications for a specific event with complete data for AI analysis and ranking. Returns applicant information, responses to all questions, and metadata for evaluation.'',
       properties = [(''eventId'', ''string'', ''The unique ID of the event to fetch applications for'')],
       required = [''eventId'']\<rparr>,
      \<lparr>name = ''get_event_evaluations'',
       description = ''Get completed evaluations for applications in a specific event. Includes reviewer scores, comments, recommendations, and statistics for AI analysis of human evaluation patterns.'',
       properties = [(''eventId'', ''string'', ''The unique ID of the event to fetch evaluations for'')],
       required = [''eventId'']\<rparr>,
      \<lparr>name = ''get_evaluation_criteria'',
       description = ''Get evaluation criteria categorized for AI understanding. Provides scoring rubrics, weights, and guidelines used by human reviewers for consistent AI application scoring.'',
       properties = [(''eventId'', ''string'', ''The unique ID of the event to get evaluation criteria for (provides context)'')],
       required = [''eventId'']\<rparr>,
      \<lparr>name = ''get_application_questions'',
       description = ''Get application questions structure and metadata. Provides the complete question set, types, and requirements for understanding application data format and content.'',
       properties = [(''eventId'', ''string'', ''The unique ID of the event to fetch application questions for'')],
       required = [''eventId'']\<rparr>]"


subsection \<open>Invocation\<close>

text \<open>
  A tool result has one text block, whose text is \<^verbatim>\<open>JSON.stringify(v, null, 2)\<close>;
  \<open>stringified\<close> is that \<open>v\<close>. \<open>isError\<close> is \<open>False\<close> where the source leaves the
  field out.
\<close>

record tool_result =
  stringified :: json
  isError :: bool

type_synonym arguments = "(string \<times> json) list option"

text \<open>
  \<^verbatim>\<open>const { eventId } = args\<close>: the arguments of a call are an object or
  \<^verbatim>\<open>undefined\<close> (the request schema makes them optional); destructuring
  \<^verbatim>\<open>undefined\<close> throws the runtime's \<^verbatim>\<open>TypeError\<close>, with Node's message.
\<close>

definition destructure_message :: string where
  "destructure_message =
     ''Cannot destructure property 'eventId' of 'args' as it is undefined.''"

definition destructure_eventId :: "arguments \<Rightarrow> thrown + json option" where
  "destructure_eventId args =
     (case args of
        None \<Rightarrow> Inl (TypeError destructure_message)
      | Some kvs \<Rightarrow> Inr (map_of kvs ''eventId''))"

text \<open>The own enumerable properties that \<^verbatim>\<open>{...v}\<close> copies.\<close>

fun spread :: "json \<Rightarrow> (string \<times> json) list" where
  "spread (JObj kvs) = kvs"
| "spread (JArr xs) = zip (map decimal [0..<length xs]) xs"
| "spread (JStr s) = zip (map decimal [0..<length s]) (map (\<lambda>c. JStr [c]) s)"
| "spread v = []"

definition status_json :: "client_status \<Rightarrow> json" where
  "status_json st =
     JObj [(''configured'', JBool (configured st)),
           (''baseUrl'', JStr (status_baseUrl st)),
           (''hasApiKey'', JBool (hasApiKey st))]"

text \<open>The body of one of the four \<^verbatim>\<open>case\<close>s that take an event.\<close>

definition event_case ::
  "(json option \<Rightarrow> (thrown + json) \<times> http_request list) \<Rightarrow> arguments
     \<Rightarrow> (thrown + tool_result) \<times> http_request list" where
  "event_case operation args =
     (case destructure_eventId args of
        Inl e \<Rightarrow> (Inl e, [])
      | Inr eventId \<Rightarrow>
          if \<not> truthy eventId then (Inl (Error ''eventId is required''), [])
          else (case operation eventId of
                  (Inl e, sent) \<Rightarrow> (Inl e, sent)
                | (Inr result, sent) \<Rightarrow> (Inr \<lparr>stringified = result, isError = False\<rparr>, sent)))"

text \<open>The \<^verbatim>\<open>try\<close> block of the \<^verbatim>\<open>CallToolRequestSchema\<close> handler: the \<^verbatim>\<open>switch\<close>.\<close>

definition tool_switch ::
  "fetch \<Rightarrow> VercelApiClient \<Rightarrow> string \<Rightarrow> arguments
     \<Rightarrow> (thrown + tool_result) \<times> http_request list" where
  "tool_switch fetch c nm args =
     (if nm = ''test_connection'' then
        (case testConnection fetch c of
           (Inl e, sent) \<Rightarrow> (Inl e, sent)
         | (Inr result, sent) \<Rightarrow>
             (Inr \<lparr>stringified =
                     JObj (AList.update ''apiClient'' (status_json (getStatus c))
                            (AList.update ''version'' (JStr ''1.0.0'')
                              (AList.update ''mcpServer'' (JStr ''ftc-platform-mcp'')
                                (spread result)))),
                   isError = False\<rparr>, sent))
      else if nm = ''get_event_applications'' then event_case (getEventApplications fetch c) args
      else if nm = ''get_event_evaluations'' then event_case (getEventEvaluations fetch c) args
      else if nm = ''get_evaluation_criteria'' then event_case (getEvaluationCriteria fetch c) args
      else if nm = ''get_application_questions'' then event_case (getApplicationQuestions fetch c) args
      else (Inl (Error (''Unknown tool: '' @ nm)), []))"

text \<open>
  The \<^verbatim>\<open>catch\<close> block: every value thrown here is an \<^verbatim>\<open>Error\<close>, so the message
  reported is its \<^verbatim>\<open>message\<close>. \<open>now\<close> is \<^verbatim>\<open>new Date().toISOString()\<close>.
\<close>

definition error_result :: "string \<Rightarrow> string \<Rightarrow> string \<Rightarrow> tool_result" where
  "error_result errorMessage nm now =
     \<lparr>stringified =
        JObj [(''success'', JBool False),
              (''error'', JStr errorMessage),
              (''tool'', JStr nm),
              (''timestamp'', JStr now),
              (''details'', JStr (''Failed to execute MCP tool: '' @ nm))],
      isError = True\<rparr>"

definition callTool ::
  "string \<Rightarrow> fetch \<Rightarrow> VercelApiClient \<Rightarrow> string \<Rightarrow> arguments
     \<Rightarrow> tool_result \<times> http_request list" where
  "callTool now fetch c nm args =
     (case tool_switch fetch c nm args of
        (Inr r, sent) \<Rightarrow> (r, sent)
      | (Inl e, sent) \<Rightarrow> (error_result (message e) nm now, sent))"

subsection \<open>A session's requests, one after the other\<close>

text \<open>
  The two handlers close over the server object and read its client only; the client's
  fields are never assigned after construction. What the clock and the upstream answer
  at the time of a request comes with the request.
\<close>

datatype rpc = ListTools | CallTool string arguments

datatype rpc_result = Tools "tool_descriptor list" | ToolResult tool_result

definition handle_rpc ::
  "VercelApiClient \<Rightarrow> string \<times> fetch \<times> rpc \<Rightarrow> rpc_result \<times> http_request list" where
  "handle_rpc c x =
     (case x of
        (now, fetch, ListTools) \<Rightarrow> (Tools listTools, [])
      | (now, fetch, CallTool nm args) \<Rightarrow>
          (case callTool now fetch c nm args of (r, sent) \<Rightarrow> (ToolResult r, sent)))"

definition serve ::
  "VercelApiClient \<Rightarrow> (string \<times> fetch \<times> rpc) list \<Rightarrow> (rpc_result \<times> http_request list) list" where
  "serve c xs = map (handle_rpc c) xs"


section \<open>The request router: the \<^verbatim>\<open>/mcp\<close> endpoint\<close>

text \<open>
  What the handler reads of an incoming HTTP request: the \<^verbatim>\<open>mcp-session-id\<close> header
  (\<open>None\<close> when the header is missing), the method, and the value of the SDK's
  \<^verbatim>\<open>isInitializeRequest(req.body)\<close>.
\<close>

record incoming =
  session_header :: "string option"
  req_method :: string
  is_initialize :: bool

text \<open>
  \<^verbatim>\<open>StreamableHTTPServerTransport.handleRequest\<close> belongs to the SDK, not to this
  repository. The model keeps of it what reaches the session table, which is the two
  callbacks the handler installs on a transport it creates:
  \<^item> handling an initialize request on a transport that has no session identifier yet,
    it takes an identifier from \<^verbatim>\<open>sessionIdGenerator\<close> (here \<^verbatim>\<open>randomUUID()\<close>, whose
    value \<open>uuid\<close> comes with the request), stores it in \<^verbatim>\<open>transport.sessionId\<close> and
    calls \<^verbatim>\<open>onsessioninitialized\<close> with it; a second initialize request on the same
    transport is refused;
  \<^item> handling a \<^verbatim>\<open>DELETE\<close> request, it closes the transport, which calls
    \<^verbatim>\<open>onclose\<close>;
  \<^item> it may refuse a request with an error response of its own (\<open>Refuses\<close>), or its
    promise may reject (\<open>Throws\<close>), without calling either callback.
\<close>

datatype sdk = Accepts | Refuses | Throws string

datatype outcome = Processed "string option" | Refused | Failed string

text \<open>
  A response of the handler: a JSON-RPC error written by the handler itself (HTTP
  status, error code, message), or the request was passed to the transport of the
  given number. \<open>Processed (Some sid)\<close> says that the transport minted the session
  identifier \<open>sid\<close> and returned it in the response headers; \<open>Failed d\<close> is the
  \<^verbatim>\<open>catch\<close> block's status 500 with \<open>d\<close> as the error's data.
\<close>

datatype response = JsonRpcError nat int string | Forwarded nat outcome

definition onsessioninitialized :: "FtcMcpServer \<Rightarrow> nat \<Rightarrow> string \<Rightarrow> FtcMcpServer" where
  "onsessioninitialized srv t newSessionId =
     srv\<lparr>transports := (transports srv)(newSessionId \<mapsto> t)\<rparr>"

definition onclose :: "FtcMcpServer \<Rightarrow> nat \<Rightarrow> FtcMcpServer" where
  "onclose srv t =
     (case sessionIds srv t of
        None \<Rightarrow> srv
      | Some sid \<Rightarrow>
          if sid = [] then srv
          else srv\<lparr>transports := (transports srv)(sid := None)\<rparr>)"

definition is_handshake :: "incoming \<Rightarrow> bool" where
  "is_handshake rq = (req_method rq = ''POST'' \<and> is_initialize rq)"

definition handleRequest ::
  "sdk \<Rightarrow> string \<Rightarrow> FtcMcpServer \<Rightarrow> nat \<Rightarrow> incoming \<Rightarrow> response \<times> FtcMcpServer" where
  "handleRequest behaviour uuid srv t rq =
     (case behaviour of
        Throws d \<Rightarrow> (Forwarded t (Failed d), srv)
      | Refuses \<Rightarrow> (Forwarded t Refused, srv)
      | Accepts \<Rightarrow>
          if is_handshake rq then
            (case sessionIds srv t of
               Some sid \<Rightarrow> (Forwarded t Refused, srv)
             | None \<Rightarrow>
                 (let srv1 = srv\<lparr>sessionIds := (sessionIds srv)(t \<mapsto> uuid)\<rparr>
                  in (Forwarded t (Processed (Some uuid)),
                      if uuid \<noteq> [] then onsessioninitialized srv1 t uuid else srv1)))
          else if req_method rq = ''DELETE'' then (Forwarded t (Processed None), onclose srv t)
          else (Forwarded t (Processed None), srv))"

text \<open>
  The handler of \<^verbatim>\<open>app.all('/mcp', ...)\<close>. An empty header value is falsy, so it is
  looked up no more than a missing header is. A new transport gets the next number and
  has no session identifier yet; \<^verbatim>\<open>createMcpServer\<close> and \<^verbatim>\<open>server.connect\<close>
  register the tool handlers on it and do not touch the session table.
\<close>

definition find_transport :: "FtcMcpServer \<Rightarrow> string option \<Rightarrow> nat option" where
  "find_transport srv sessionId =
     (case sessionId of
        None \<Rightarrow> None
      | Some sid \<Rightarrow> if sid = [] then None else transports srv sid)"

definition mcp_handler ::
  "sdk \<Rightarrow> string \<Rightarrow> FtcMcpServer \<Rightarrow> incoming \<Rightarrow> response \<times> FtcMcpServer" where
  "mcp_handler behaviour uuid srv rq =
     (let sessionId = session_header rq
      in case find_transport srv sessionId of
           Some t \<Rightarrow> handleRequest behaviour uuid srv t rq
         | None \<Rightarrow>
             if req_method rq = ''POST'' \<and> is_initialize rq then
               (let t = created srv
                in handleRequest behaviour uuid
                     (srv\<lparr>created := Suc t, sessionIds := (sessionIds srv)(t := None)\<rparr>) t rq)
             else if sessionId \<noteq> None \<and> sessionId \<noteq> Some [] then
               (JsonRpcError 400 (- 32000) ''Invalid session ID or session expired'', srv)
             else
               (JsonRpcError 400 (- 32000) ''No session ID provided. Initialize first.'', srv))"

subsection \<open>Runs of the server\<close>

text \<open>
  What happens to a running server: a request arrives (with the SDK's behaviour on it
  and the identifier the generator would return), or a transport is closed from
  outside a request. A run records each event with the response it got.
\<close>

datatype event = Request sdk string incoming | Close nat

fun step :: "FtcMcpServer \<Rightarrow> event \<Rightarrow> response option \<times> FtcMcpServer" where
  "step srv (Request behaviour uuid rq) =
     (case mcp_handler behaviour uuid srv rq of (rsp, srv') \<Rightarrow> (Some rsp, srv'))"
| "step srv (Close t) = (None, onclose srv t)"

fun run :: "FtcMcpServer \<Rightarrow> event list \<Rightarrow> (event \<times> response option) list \<times> FtcMcpServer" where
  "run srv [] = ([], srv)"
| "run srv (ev # evs) =
     (case step srv ev of
        (rsp, srv') \<Rightarrow> (case run srv' evs of (log, srv'') \<Rightarrow> ((ev, rsp) # log, srv'')))"

text \<open>The session identifiers that the handshakes of a run produced.\<close>

fun minted_by :: "event \<times> response option \<Rightarrow> string list" where
  "minted_by (Request behaviour uuid rq, Some (Forwarded t (Processed (Some sid)))) =
     (if is_handshake rq then [sid] else [])"
| "minted_by x = []"

definition minted :: "(event \<times> response option) list \<Rightarrow> string list" where
  "minted log = concat (map minted_by log)"


section \<open>Notions used to state the properties\<close>

text \<open>The tools whose schema lists \<open>eventId\<close> as required, read off the discovery list.\<close>

definition event_tools :: "string list" where
  "event_tools = map name (filter (\<lambda>t. ''eventId'' \<in> set (required t)) listTools)"

text \<open>
  The ways an upstream call fails: the request is rejected (network failure), the
  status is not 2xx, the body is not JSON, the payload's \<^verbatim>\<open>success\<close> is falsy, or
  \<^verbatim>\<open>success\<close> holds and \<^verbatim>\<open>data\<close> is missing or falsy.
\<close>

definition upstream_fails :: "fetched \<Rightarrow> bool" where
  "upstream_fails f =
     (case f of
        Rejected e \<Rightarrow> True
      | Resolved r \<Rightarrow>
          \<not> ok r \<or>
          (case body_json r of
             Inl e \<Rightarrow> True
           | Inr d \<Rightarrow> \<not> truthy (get_prop d ''success'') \<or> \<not> truthy (get_prop d ''data'')))"

text \<open>
  The invocations that reach the upstream call: the probe with any arguments, an event
  tool with a truthy \<open>eventId\<close>.
\<close>

definition accepted :: "string \<Rightarrow> arguments \<Rightarrow> bool" where
  "accepted nm args =
     (nm = ''test_connection'' \<or>
      nm \<in> set event_tools \<and>
      (case args of None \<Rightarrow> False | Some kvs \<Rightarrow> truthy (map_of kvs ''eventId'')))"

text \<open>A server as the constructor leaves it, and a client, for the concrete runs below.\<close>

definition example_client :: VercelApiClient where
  "example_client = \<lparr>baseUrl = ''https://ftc.example/api/mastra'', apiKey = ''secret''\<rparr>"

definition fresh_server :: FtcMcpServer where
  "fresh_server = \<lparr>apiClient = example_client,
                    transports = Map.empty, sessionIds = Map.empty, created = 0,
                    port = Some 3001\<rparr>"

definition probe_payload :: json where
  "probe_payload = JObj [(''success'', JBool True), (''message'', JStr ''API is up''),
                         (''timestamp'', JStr ''2025-01-01T00:00:00.000Z'')]"

definition probe_fetch :: fetch where
  "probe_fetch rq =
     Resolved \<lparr>status = 200, statusText = ''OK'', body_text = Inr ''{...}'',
               body_json = Inr (JObj [(''success'', JBool True), (''data'', probe_payload)])\<rparr>"

definition failing_fetch :: fetch where
  "failing_fetch rq =
     Resolved \<lparr>status = 500, statusText = ''Internal Server Error'',
               body_text = Inr ''upstream exploded'', body_json = Inl (Error ''not JSON'')\<rparr>"

definition event_arguments :: arguments where
  "event_arguments = Some [(''eventId'', JStr ''11111111-1111-1111-1111-111111111111'')]"

definition initialize_request :: incoming where
  "initialize_request = \<lparr>session_header = None, req_method = ''POST'', is_initialize = True\<rparr>"

definition list_request :: "string \<Rightarrow> incoming" where
  "list_request sid = \<lparr>session_header = Some sid, req_method = ''POST'', is_initialize = False\<rparr>"

definition clash_payload :: json where
  "clash_payload = JObj [(''success'', JBool True), (''message'', JStr ''API is up''),
                         (''timestamp'', JStr ''2025-01-01T00:00:00.000Z''),
                         (''version'', JStr ''9'')]"

definition payload_fetch :: "json \<Rightarrow> fetch" where
  "payload_fetch payload rq =
     Resolved \<lparr>status = 200, statusText = ''OK'', body_text = Inr ''{...}'',
               body_json = Inr (JObj [(''success'', JBool True), (''data'', payload)])\<rparr>"

definition rejecting_fetch :: fetch where
  "rejecting_fetch rq = Rejected (Error ''connect ECONNREFUSED 127.0.0.1:3000'')"

definition refusing_fetch :: fetch where
  "refusing_fetch rq =
     Resolved \<lparr>status = 200, statusText = ''OK'', body_text = Inr ''{...}'',
               body_json = Inr (JObj [(''success'', JBool False), (''error'', JStr ''Event not found'')])\<rparr>"

definition empty_fetch :: fetch where
  "empty_fetch rq =
     Resolved \<lparr>status = 200, statusText = ''OK'', body_text = Inr ''{...}'',
               body_json = Inr (JObj [(''success'', JBool True)])\<rparr>"

section \<open>Start-up\<close>

lemma new_client_Inr:
  "new_VercelApiClient e = Inr c \<longleftrightarrow>
     (\<exists>k. e ''MASTRA_API_KEY'' = Some k \<and> k \<noteq> [] \<and>
          c = \<lparr>baseUrl = (case e ''VERCEL_API_BASE_URL'' of None \<Rightarrow> default_baseUrl | Some u \<Rightarrow> u),
               apiKey = k\<rparr>)"
  by (auto simp: new_VercelApiClient_def Let_def split: option.splits)

lemma main_exits_without_server:
  "new_FtcMcpServer e = Inl err \<Longrightarrow> main bind e = Exited 1"
  by (simp add: main_def)

lemma main_with_server:
  "new_FtcMcpServer e = Inr srv \<Longrightarrow>
   main bind e = (if \<exists>p. port srv = Some p \<and> 0 \<le> p \<and> p \<le> 65535 \<and> bind (nat p)
                  then Running srv else Exited 1)"
  by (auto simp: main_def start_def split: option.splits)

lemma default_port: "parseInt ''3001'' = Some 3001"
  by (simp add: parseInt_def white_space_def digit_def digits_value_def Let_def)

text \<open>
  Claim C6, as the code has it. A missing or empty \<^verbatim>\<open>MASTRA_API_KEY\<close> makes the
  client's constructor throw, and \<^verbatim>\<open>main\<close> ends the process with exit code 1. A
  \<^verbatim>\<open>VERCEL_API_BASE_URL\<close> set to the empty string ends the process too, in the
  constructor or in \<^verbatim>\<open>validateConfiguration\<close>. A \<^verbatim>\<open>VERCEL_API_BASE_URL\<close> that is not
  set does not: with a key present the server is constructed on the default base URL,
  and the process runs exactly when it can listen on its port (the port read from
  \<^verbatim>\<open>MCP_PORT\<close> is a number from 0 to 65535 and the system lets the process bind it).
\<close>

theorem startup_configuration:
  "((e ''MASTRA_API_KEY'' = None \<or> e ''MASTRA_API_KEY'' = Some []) \<longrightarrow>
      main bind e = Exited 1 \<and>
      new_VercelApiClient e = Inl (Error ''MASTRA_API_KEY environment variable is required''))
   \<and> (e ''VERCEL_API_BASE_URL'' = Some [] \<longrightarrow> main bind e = Exited 1)
   \<and> (e ''VERCEL_API_BASE_URL'' = None \<and> e ''MASTRA_API_KEY'' = Some k \<and> k \<noteq> [] \<longrightarrow>
        new_FtcMcpServer e =
          Inr \<lparr>apiClient = \<lparr>baseUrl = default_baseUrl, apiKey = k\<rparr>,
               transports = Map.empty, sessionIds = Map.empty, created = 0,
               port = port_of_env e\<rparr>
        \<and> main bind e =
            (if \<exists>p. port_of_env e = Some p \<and> 0 \<le> p \<and> p \<le> 65535 \<and> bind (nat p)
             then Running \<lparr>apiClient = \<lparr>baseUrl = default_baseUrl, apiKey = k\<rparr>,
                            transports = Map.empty, sessionIds = Map.empty, created = 0,
                            port = port_of_env e\<rparr>
             else Exited 1))"
proof -
  have a: "(e ''MASTRA_API_KEY'' = None \<or> e ''MASTRA_API_KEY'' = Some []) \<longrightarrow>
      main bind e = Exited 1 \<and>
      new_VercelApiClient e = Inl (Error ''MASTRA_API_KEY environment variable is required'')"
    by (auto simp: main_def new_FtcMcpServer_def new_VercelApiClient_def Let_def)
  have b: "e ''VERCEL_API_BASE_URL'' = Some [] \<longrightarrow> main bind e = Exited 1"
    by (auto simp: main_def new_FtcMcpServer_def new_VercelApiClient_def validateConfiguration_def
          getStatus_def Let_def split: option.splits)
  have c: "e ''VERCEL_API_BASE_URL'' = None \<and> e ''MASTRA_API_KEY'' = Some k \<and> k \<noteq> [] \<longrightarrow>
        new_FtcMcpServer e =
          Inr \<lparr>apiClient = \<lparr>baseUrl = default_baseUrl, apiKey = k\<rparr>,
               transports = Map.empty, sessionIds = Map.empty, created = 0,
               port = port_of_env e\<rparr>"
    by (simp add: new_FtcMcpServer_def new_VercelApiClient_def validateConfiguration_def
          getStatus_def default_baseUrl_def Let_def)
  show ?thesis
    using a b c main_with_server [of e _ bind] by auto
qed

text \<open>The cases at concrete environments, with a port that is free and one that is not.\<close>

theorem startup_configuration_witness:
  "main (\<lambda>p. True) Map.empty = Exited 1
   \<and> main (\<lambda>p. True) [''MASTRA_API_KEY'' \<mapsto> ''secret'', ''VERCEL_API_BASE_URL'' \<mapsto> ''''] = Exited 1
   \<and> main (\<lambda>p. True) [''MASTRA_API_KEY'' \<mapsto> ''k''] =
       Running \<lparr>apiClient = \<lparr>baseUrl = default_baseUrl, apiKey = ''k''\<rparr>,
                transports = Map.empty, sessionIds = Map.empty, created = 0, port = Some 3001\<rparr>
   \<and> main (\<lambda>p. True) [''MASTRA_API_KEY'' \<mapsto> ''k'', ''MCP_PORT'' \<mapsto> ''99999''] = Exited 1
   \<and> main (\<lambda>p. False) [''MASTRA_API_KEY'' \<mapsto> ''k''] = Exited 1"
proof -
  have p1: "port_of_env [''MASTRA_API_KEY'' \<mapsto> ''k''] = Some 3001"
    by (simp add: port_of_env_def default_port)
  have p2: "port_of_env [''MASTRA_API_KEY'' \<mapsto> ''k'', ''MCP_PORT'' \<mapsto> ''99999''] = Some 99999"
    by (simp add: port_of_env_def parseInt_def white_space_def digit_def digits_value_def Let_def)
  show ?thesis
    using startup_configuration [of Map.empty "\<lambda>p. True"]
      startup_configuration [of "[''MASTRA_API_KEY'' \<mapsto> ''secret'', ''VERCEL_API_BASE_URL'' \<mapsto> '''']"
        "\<lambda>p. True"]
      startup_configuration [of "[''MASTRA_API_KEY'' \<mapsto> ''k'']" "\<lambda>p. True" "''k''"]
      startup_configuration [of "[''MASTRA_API_KEY'' \<mapsto> ''k'', ''MCP_PORT'' \<mapsto> ''99999'']"
        "\<lambda>p. True" "''k''"]
      startup_configuration [of "[''MASTRA_API_KEY'' \<mapsto> ''k'']" "\<lambda>p. False" "''k''"]
    by (simp add: p1 p2)
qed

text \<open>
  An environment with a key and no \<^verbatim>\<open>VERCEL_API_BASE_URL\<close>, the default port being
  free: the process starts, so the claim that it refuses to start does not hold.
\<close>

theorem startup_without_base_url_counterexample:
  "main (\<lambda>p. True) [''MASTRA_API_KEY'' \<mapsto> ''secret''] =
     Running \<lparr>apiClient = \<lparr>baseUrl = ''http://localhost:3000/api/mastra'', apiKey = ''secret''\<rparr>,
              transports = Map.empty, sessionIds = Map.empty, created = 0, port = Some 3001\<rparr>"
  by (simp add: main_def start_def new_FtcMcpServer_def new_VercelApiClient_def
        validateConfiguration_def getStatus_def default_baseUrl_def port_of_env_def default_port
        Let_def)

text \<open>
  Claim C10, as the code has it. A constructed client always has its key. Its status
  says \<open>configured\<close>, with a non-empty base URL, exactly when \<^verbatim>\<open>VERCEL_API_BASE_URL\<close>
  was not set to the empty string. In a running process the status always says
  \<open>configured\<close>, has the key and a non-empty base URL, because the server's constructor
  ran \<^verbatim>\<open>validateConfiguration\<close>.
\<close>

theorem running_status:
  "(new_VercelApiClient e = Inr c \<longrightarrow>
      hasApiKey (getStatus c) \<and>
      (configured (getStatus c) \<longleftrightarrow> e ''VERCEL_API_BASE_URL'' \<noteq> Some []) \<and>
      (status_baseUrl (getStatus c) \<noteq> [] \<longleftrightarrow> e ''VERCEL_API_BASE_URL'' \<noteq> Some []))
   \<and> (main bind e = Running srv \<longrightarrow>
        configured (getStatus (apiClient srv)) \<and> hasApiKey (getStatus (apiClient srv)) \<and>
        status_baseUrl (getStatus (apiClient srv)) \<noteq> [])"
proof -
  have a: "new_VercelApiClient e = Inr c \<longrightarrow>
      hasApiKey (getStatus c) \<and>
      (configured (getStatus c) \<longleftrightarrow> e ''VERCEL_API_BASE_URL'' \<noteq> Some []) \<and>
      (status_baseUrl (getStatus c) \<noteq> [] \<longleftrightarrow> e ''VERCEL_API_BASE_URL'' \<noteq> Some [])"
    by (auto simp: new_VercelApiClient_def getStatus_def default_baseUrl_def Let_def
          split: option.splits if_splits)
  have b: "main bind e = Running srv \<longrightarrow>
        configured (getStatus (apiClient srv)) \<and> hasApiKey (getStatus (apiClient srv)) \<and>
        status_baseUrl (getStatus (apiClient srv)) \<noteq> []"
    by (auto simp: main_def new_FtcMcpServer_def validateConfiguration_def getStatus_def Let_def
          split: sum.splits started.splits if_splits)
  show ?thesis using a b by blast
qed

text \<open>A running process whose environment sets both variables.\<close>

theorem running_status_witness:
  "configured (getStatus \<lparr>baseUrl = ''https://ftc.example/api/mastra'', apiKey = ''secret''\<rparr>)
   \<and> hasApiKey (getStatus \<lparr>baseUrl = ''https://ftc.example/api/mastra'', apiKey = ''secret''\<rparr>)
   \<and> status_baseUrl (getStatus \<lparr>baseUrl = ''https://ftc.example/api/mastra'', apiKey = ''secret''\<rparr>) \<noteq> []"
proof -
  let ?e = "[''MASTRA_API_KEY'' \<mapsto> ''secret'', ''VERCEL_API_BASE_URL'' \<mapsto> ''https://ftc.example/api/mastra'']"
  let ?c = "\<lparr>baseUrl = ''https://ftc.example/api/mastra'', apiKey = ''secret''\<rparr>"
  let ?srv = "\<lparr>apiClient = ?c, transports = Map.empty, sessionIds = Map.empty, created = 0,
               port = Some 3001\<rparr>"
  have c: "new_VercelApiClient ?e = Inr ?c"
    by (simp add: new_VercelApiClient_def Let_def)
  have m: "main (\<lambda>p. True) ?e = Running ?srv"
    by (simp add: main_def start_def new_FtcMcpServer_def validateConfiguration_def getStatus_def
          port_of_env_def default_port c)
  show ?thesis
    using running_status [of ?e ?c "\<lambda>p. True" ?srv] c m
    by simp
qed

text \<open>
  A key and an empty \<^verbatim>\<open>VERCEL_API_BASE_URL\<close>: the client is constructed, and its
  status says \<open>configured = False\<close> with an empty base URL.
\<close>

theorem client_status_counterexample:
  "new_VercelApiClient [''MASTRA_API_KEY'' \<mapsto> ''secret'', ''VERCEL_API_BASE_URL'' \<mapsto> '''']
     = Inr \<lparr>baseUrl = '''', apiKey = ''secret''\<rparr>
   \<and> getStatus \<lparr>baseUrl = '''', apiKey = ''secret''\<rparr>
     = \<lparr>configured = False, status_baseUrl = '''', hasApiKey = True\<rparr>"
  by (simp add: new_VercelApiClient_def getStatus_def Let_def)

section \<open>The dispatcher\<close>

lemma event_tools_eq:
  "event_tools = [''get_event_applications'', ''get_event_evaluations'',
                  ''get_evaluation_criteria'', ''get_application_questions'']"
  by (simp add: event_tools_def listTools_def)

lemma tool_names:
  "map name listTools = [''test_connection'', ''get_event_applications'', ''get_event_evaluations'',
                         ''get_evaluation_criteria'', ''get_application_questions'']"
  by (simp add: listTools_def)

lemma event_case_falsy:
  "\<not> truthy (map_of kvs ''eventId'') \<Longrightarrow>
   event_case operation (Some kvs) = (Inl (Error ''eventId is required''), [])"
  by (simp add: event_case_def destructure_eventId_def)

lemma event_case_undefined:
  "event_case operation None = (Inl (TypeError destructure_message), [])"
  by (simp add: event_case_def destructure_eventId_def)

lemma event_case_cong_eventId:
  "map_of kvs ''eventId'' = map_of kvs' ''eventId'' \<Longrightarrow>
   event_case operation (Some kvs) = event_case operation (Some kvs')"
  by (simp add: event_case_def destructure_eventId_def)

lemma switch_applications:
  "tool_switch fetch c ''get_event_applications'' args = event_case (getEventApplications fetch c) args"
  by (simp add: tool_switch_def)

lemma switch_evaluations:
  "tool_switch fetch c ''get_event_evaluations'' args = event_case (getEventEvaluations fetch c) args"
  by (simp add: tool_switch_def)

lemma switch_criteria:
  "tool_switch fetch c ''get_evaluation_criteria'' args = event_case (getEvaluationCriteria fetch c) args"
  by (simp add: tool_switch_def)

lemma switch_questions:
  "tool_switch fetch c ''get_application_questions'' args = event_case (getApplicationQuestions fetch c) args"
  by (simp add: tool_switch_def)

lemma event_tools_cases:
  "nm \<in> set event_tools \<Longrightarrow>
     nm = ''get_event_applications'' \<or> nm = ''get_event_evaluations''
     \<or> nm = ''get_evaluation_criteria'' \<or> nm = ''get_application_questions''"
  by (auto simp: event_tools_eq)

lemma tool_switch_event:
  assumes "nm \<in> set event_tools"
  shows "\<exists>operation. \<forall>args. tool_switch fetch c nm args = event_case operation args"
  using event_tools_cases [OF assms] switch_applications switch_evaluations
    switch_criteria switch_questions
  by blast

lemma eventId_required:
  assumes "nm \<in> set event_tools"
  shows "((map_of kvs ''eventId'' = None \<or> map_of kvs ''eventId'' = Some (JStr [])) \<longrightarrow>
            callTool now fetch c nm (Some kvs)
              = (\<lparr>stringified =
               JObj [(''success'', JBool False),
                     (''error'', JStr (''eventId is required'')),
                     (''tool'', JStr nm),
                     (''timestamp'', JStr now),
                     (''details'', JStr (''Failed to execute MCP tool: '' @ nm))],
             isError = True\<rparr>, []))
       \<and> (k \<noteq> ''eventId'' \<longrightarrow>
            callTool now fetch c nm (Some ((k, v) # kvs)) = callTool now fetch c nm (Some kvs))"
proof -
  obtain operation where sw: "\<And>args. tool_switch fetch c nm args = event_case operation args"
    using tool_switch_event [OF assms] by blast
  have a: "(map_of kvs ''eventId'' = None \<or> map_of kvs ''eventId'' = Some (JStr [])) \<longrightarrow>
            callTool now fetch c nm (Some kvs) = (error_result ''eventId is required'' nm now, [])"
    by (auto simp: callTool_def sw event_case_falsy)
  have b: "k \<noteq> ''eventId'' \<longrightarrow>
            callTool now fetch c nm (Some ((k, v) # kvs)) = callTool now fetch c nm (Some kvs)"
    using event_case_cong_eventId [of "(k, v) # kvs" kvs operation]
    by (simp add: callTool_def sw)
  show ?thesis using a b by (simp add: error_result_def)
qed

text \<open>
  Claim C3, at the input where the code departs from it. A call of
  \<^verbatim>\<open>get_event_applications\<close> whose request has no arguments field: \<open>eventId\<close> is
  absent, nothing is sent upstream and the result is an error, but its message is the
  runtime's text for the failed destructuring, not \<^verbatim>\<open>eventId is required\<close>: the
  check \<^verbatim>\<open>if (!eventId)\<close> is never reached. With an empty arguments object the same
  call gets the message \<^verbatim>\<open>eventId is required\<close>.
\<close>

theorem absent_arguments_message:
  "callTool ''2025-01-01T00:00:00.000Z'' failing_fetch example_client ''get_event_applications'' None
     = (\<lparr>stringified =
           JObj [(''success'', JBool False),
                 (''error'', JStr ''Cannot destructure property 'eventId' of 'args' as it is undefined.''),
                 (''tool'', JStr ''get_event_applications''),
                 (''timestamp'', JStr ''2025-01-01T00:00:00.000Z''),
                 (''details'', JStr ''Failed to execute MCP tool: get_event_applications'')],
         isError = True\<rparr>, [])
   \<and> callTool ''2025-01-01T00:00:00.000Z'' failing_fetch example_client ''get_event_applications''
         (Some [])
     = (\<lparr>stringified =
           JObj [(''success'', JBool False),
                 (''error'', JStr ''eventId is required''),
                 (''tool'', JStr ''get_event_applications''),
                 (''timestamp'', JStr ''2025-01-01T00:00:00.000Z''),
                 (''details'', JStr ''Failed to execute MCP tool: get_event_applications'')],
         isError = True\<rparr>, [])"
  by (simp add: callTool_def tool_switch_def event_case_def destructure_eventId_def
        error_result_def destructure_message_def)

text \<open>
  Claim C9. A call of a tool that requires \<open>eventId\<close>, with no arguments field: the
  \<^verbatim>\<open>TypeError\<close> of the destructuring is thrown inside the \<^verbatim>\<open>try\<close> block, so the
  handler returns the error result carrying its message, and sends nothing upstream.
\<close>

theorem undefined_arguments_caught:
  assumes "nm \<in> set event_tools"
  shows "callTool now fetch c nm None = (error_result destructure_message nm now, [])
       \<and> isError (error_result destructure_message nm now)"
proof -
  obtain operation where sw: "\<And>args. tool_switch fetch c nm args = event_case operation args"
    using tool_switch_event [OF assms] by blast
  show ?thesis by (simp add: callTool_def sw event_case_undefined error_result_def)
qed

text \<open>The same on \<^verbatim>\<open>get_event_evaluations\<close>.\<close>

theorem undefined_arguments_caught_witness:
  "callTool ''2025-01-01T00:00:00.000Z'' failing_fetch example_client ''get_event_evaluations'' None
     = (error_result destructure_message ''get_event_evaluations'' ''2025-01-01T00:00:00.000Z'', [])
   \<and> isError (error_result destructure_message ''get_event_evaluations'' ''2025-01-01T00:00:00.000Z'')"
proof -
  have t: "''get_event_evaluations'' \<in> set event_tools"
    by (simp add: event_tools_eq)
  show ?thesis
    using undefined_arguments_caught [OF t, of "''2025-01-01T00:00:00.000Z''" failing_fetch example_client] .
qed

text \<open>
  Claim C4. A tool name that is none of the five registered names gets the result
  tagged as an error whose \<^verbatim>\<open>error\<close> is \<^verbatim>\<open>Unknown tool: \<close> followed by the name and
  whose \<^verbatim>\<open>tool\<close> is the name, and nothing is sent upstream.
\<close>

theorem unknown_tool:
  assumes "nm \<notin> set (map name listTools)"
  shows "callTool now fetch c nm args
           = (\<lparr>stringified =
               JObj [(''success'', JBool False),
                     (''error'', JStr (''Unknown tool: '' @ nm)),
                     (''tool'', JStr nm),
                     (''timestamp'', JStr now),
                     (''details'', JStr (''Failed to execute MCP tool: '' @ nm))],
             isError = True\<rparr>, [])"
  using assms by (simp add: callTool_def tool_switch_def listTools_def error_result_def)

text \<open>An unregistered name.\<close>

theorem unknown_tool_witness:
  "callTool ''2025-01-01T00:00:00.000Z'' failing_fetch example_client ''delete_event'' (Some [])
     = (\<lparr>stringified =
           JObj [(''success'', JBool False),
                 (''error'', JStr ''Unknown tool: delete_event''),
                 (''tool'', JStr ''delete_event''),
                 (''timestamp'', JStr ''2025-01-01T00:00:00.000Z''),
                 (''details'', JStr ''Failed to execute MCP tool: delete_event'')],
         isError = True\<rparr>, [])"
proof -
  have t: "''delete_event'' \<notin> set (map name listTools)"
    by (simp add: tool_names)
  show ?thesis
    using unknown_tool [OF t, of "''2025-01-01T00:00:00.000Z''" failing_fetch example_client "Some []"]
    by simp
qed

text \<open>
  Claim C7. Discovery returns the same list of five descriptors, in the order
  \<^verbatim>\<open>test_connection\<close>, \<^verbatim>\<open>get_event_applications\<close>, \<^verbatim>\<open>get_event_evaluations\<close>,
  \<^verbatim>\<open>get_evaluation_criteria\<close>, \<^verbatim>\<open>get_application_questions\<close>, whatever the time, the
  upstream and the client; it sends nothing upstream and has no state to change. Two
  discovery requests of one session get the same answer, whatever comes before,
  between and after them.
\<close>

theorem discovery:
  "map name listTools = [''test_connection'', ''get_event_applications'', ''get_event_evaluations'',
                         ''get_evaluation_criteria'', ''get_application_questions'']
   \<and> length listTools = 5
   \<and> handle_rpc c (now, fetch, ListTools) = (Tools listTools, [])
   \<and> serve c (before @ (now, fetch, ListTools) # between @ (now', fetch', ListTools) # after)
       ! length before
     = serve c (before @ (now, fetch, ListTools) # between @ (now', fetch', ListTools) # after)
       ! (Suc (length before + length between))"
  by (simp add: listTools_def handle_rpc_def serve_def nth_append)

lemma read_response_fails:
  "(\<exists>e. read_response r = Inl e) \<longleftrightarrow> upstream_fails (Resolved r)"
  by (auto simp: read_response_def upstream_fails_def split: sum.splits option.splits)

lemma upstream_result_fails:
  "(\<exists>e. upstream_result f = Inl e) \<longleftrightarrow> upstream_fails f"
proof (cases f)
  case (Rejected e)
  then show ?thesis by (simp add: upstream_result_def upstream_fails_def)
next
  case (Resolved r)
  then show ?thesis using read_response_fails [of r] by (simp add: upstream_result_def)
qed

lemma makeRequest_sends_one:
  "\<exists>rq. makeRequest fetch c endpoint = (upstream_result (fetch rq), [rq])"
  by (simp add: makeRequest_def Let_def)

lemma event_case_truthy:
  "truthy (map_of kvs ''eventId'') \<Longrightarrow>
   \<exists>rq. event_case (event_request segment fetch c) (Some kvs) =
     (case upstream_result (fetch rq) of
        Inl e \<Rightarrow> (Inl e, [rq])
      | Inr result \<Rightarrow> (Inr \<lparr>stringified = result, isError = False\<rparr>, [rq]))"
proof -
  assume t: "truthy (map_of kvs ''eventId'')"
  obtain rq where m:
    "makeRequest fetch c (''/events/'' @ template (map_of kvs ''eventId'') @ segment)
       = (upstream_result (fetch rq), [rq])"
    using makeRequest_sends_one by blast
  show ?thesis
    using m
    by (intro exI [of _ rq])
      (simp add: event_case_def destructure_eventId_def event_request_def t split: sum.splits)
qed

lemma tool_switch_valid:
  assumes "nm \<in> set event_tools" and "truthy (map_of kvs ''eventId'')"
  shows "\<exists>rq. tool_switch fetch c nm (Some kvs) =
     (case upstream_result (fetch rq) of
        Inl e \<Rightarrow> (Inl e, [rq])
      | Inr result \<Rightarrow> (Inr \<lparr>stringified = result, isError = False\<rparr>, [rq]))"
proof -
  have "nm = ''get_event_applications'' \<or> nm = ''get_event_evaluations''
     \<or> nm = ''get_evaluation_criteria'' \<or> nm = ''get_application_questions''"
    using assms(1) by (auto simp: event_tools_eq)
  then obtain segment where "tool_switch fetch c nm (Some kvs)
      = event_case (event_request segment fetch c) (Some kvs)"
    by (auto simp: tool_switch_def getEventApplications_def getEventEvaluations_def
          getEvaluationCriteria_def getApplicationQuestions_def)
  then show ?thesis using event_case_truthy [OF assms(2)] by simp
qed

lemma tool_switch_probe:
  "\<exists>rq. tool_switch fetch c ''test_connection'' args =
     (case upstream_result (fetch rq) of
        Inl e \<Rightarrow> (Inl e, [rq])
      | Inr result \<Rightarrow>
          (Inr \<lparr>stringified =
                  JObj (AList.update ''apiClient'' (status_json (getStatus c))
                         (AList.update ''version'' (JStr ''1.0.0'')
                           (AList.update ''mcpServer'' (JStr ''ftc-platform-mcp'')
                             (spread result)))),
                isError = False\<rparr>, [rq]))"
proof -
  obtain rq where m: "makeRequest fetch c ''/test'' = (upstream_result (fetch rq), [rq])"
    using makeRequest_sends_one by blast
  show ?thesis
    by (rule exI [of _ rq]) (simp add: tool_switch_def testConnection_def m split: sum.splits)
qed

lemma callTool_sent: "snd (callTool now fetch c nm args) = snd (tool_switch fetch c nm args)"
  by (simp add: callTool_def split: prod.splits sum.splits)

lemma accepted_sends_one:
  assumes "accepted nm args"
  shows "\<exists>rq. snd (tool_switch fetch c nm args) = [rq]
            \<and> (\<forall>e. upstream_result (fetch rq) = Inl e \<longrightarrow> tool_switch fetch c nm args = (Inl e, [rq]))"
proof (cases "nm = ''test_connection''")
  case True
  obtain rq where "tool_switch fetch c ''test_connection'' args =
      (case upstream_result (fetch rq) of
         Inl e \<Rightarrow> (Inl e, [rq])
       | Inr result \<Rightarrow>
           (Inr \<lparr>stringified =
                   JObj (AList.update ''apiClient'' (status_json (getStatus c))
                          (AList.update ''version'' (JStr ''1.0.0'')
                            (AList.update ''mcpServer'' (JStr ''ftc-platform-mcp'')
                              (spread result)))),
                 isError = False\<rparr>, [rq]))"
    using tool_switch_probe [of fetch c args] by blast
  then have "snd (tool_switch fetch c nm args) = [rq]
      \<and> (\<forall>e. upstream_result (fetch rq) = Inl e \<longrightarrow> tool_switch fetch c nm args = (Inl e, [rq]))"
    using True by (simp split: sum.splits)
  then show ?thesis by blast
next
  case False
  then obtain kvs where k: "nm \<in> set event_tools" "args = Some kvs" "truthy (map_of kvs ''eventId'')"
    using assms by (auto simp: accepted_def split: option.splits)
  obtain rq where "tool_switch fetch c nm (Some kvs) =
      (case upstream_result (fetch rq) of
         Inl e \<Rightarrow> (Inl e, [rq])
       | Inr result \<Rightarrow> (Inr \<lparr>stringified = result, isError = False\<rparr>, [rq]))"
    using tool_switch_valid [OF k(1) k(3), of fetch c] by blast
  then have "snd (tool_switch fetch c nm args) = [rq]
      \<and> (\<forall>e. upstream_result (fetch rq) = Inl e \<longrightarrow> tool_switch fetch c nm args = (Inl e, [rq]))"
    using k(2) by (simp split: sum.splits)
  then show ?thesis by blast
qed

lemma failure_kinds:
  assumes "upstream_result f = Inl e"
  shows "(\<forall>e'. f = Rejected e' \<longrightarrow> e = e')
       \<and> (\<forall>r t. f = Resolved r \<and> \<not> ok r \<and> body_text r = Inr t \<longrightarrow>
             message e = ''API request failed: '' @ decimal (status r) @ '' '' @ statusText r
                         @ nl @ ''Response: '' @ t)
       \<and> (\<forall>r d. f = Resolved r \<and> ok r \<and> body_json r = Inr d \<and> d \<noteq> JNull
                 \<and> \<not> truthy (get_prop d ''success'') \<longrightarrow>
             message e = ''API returned error: ''
                         @ js_String (nullish_or (get_prop d ''error'') (JStr ''Unknown error''))
                         @ nl @ ''Details: ''
                         @ js_String (nullish_or (get_prop d ''details'') (JStr ''No details'')))
       \<and> (\<forall>r d. f = Resolved r \<and> ok r \<and> body_json r = Inr d
                 \<and> truthy (get_prop d ''success'') \<and> \<not> truthy (get_prop d ''data'') \<longrightarrow>
             message e = ''API returned success but no data'')"
proof (cases f)
  case (Rejected e')
  with assms show ?thesis by (simp add: upstream_result_def)
next
  case (Resolved r)
  with assms have rr: "read_response r = Inl e" by (simp add: upstream_result_def)
  have a: "\<forall>t. \<not> ok r \<and> body_text r = Inr t \<longrightarrow>
             message e = ''API request failed: '' @ decimal (status r) @ '' '' @ statusText r
                         @ nl @ ''Response: '' @ t"
    using rr by (auto simp: read_response_def)
  have b: "\<forall>d. ok r \<and> body_json r = Inr d \<and> d \<noteq> JNull
                 \<and> \<not> truthy (get_prop d ''success'') \<longrightarrow>
             message e = ''API returned error: ''
                         @ js_String (nullish_or (get_prop d ''error'') (JStr ''Unknown error''))
                         @ nl @ ''Details: ''
                         @ js_String (nullish_or (get_prop d ''details'') (JStr ''No details''))"
    using rr by (auto simp: read_response_def)
  have c: "\<forall>d. ok r \<and> body_json r = Inr d
                 \<and> truthy (get_prop d ''success'') \<and> \<not> truthy (get_prop d ''data'') \<longrightarrow>
             message e = ''API returned success but no data''"
    using rr by (auto simp: read_response_def split: option.splits if_splits)
  show ?thesis using Resolved a b c by simp
qed

lemma next_invocation_succeeds:
  assumes "nm \<in> set event_tools" and "truthy (map_of kvs ''eventId'')"
    and "\<forall>rq. upstream_result (fetch rq) = Inr payload"
  shows "fst (callTool now fetch c nm (Some kvs)) = \<lparr>stringified = payload, isError = False\<rparr>"
proof -
  obtain rq where "tool_switch fetch c nm (Some kvs) =
      (case upstream_result (fetch rq) of
         Inl e \<Rightarrow> (Inl e, [rq])
       | Inr result \<Rightarrow> (Inr \<lparr>stringified = result, isError = False\<rparr>, [rq]))"
    using tool_switch_valid [OF assms(1,2), of fetch c] by blast
  then show ?thesis using assms(3) by (simp add: callTool_def)
qed

lemma known_session_kept:
  assumes "transports srv sid = Some t" and "sid \<noteq> []" and "session_header rq = Some sid"
    and "req_method rq = ''POST''" and "\<not> is_initialize rq"
  shows "snd (mcp_handler behaviour uuid srv rq) = srv
       \<and> (\<exists>out. fst (mcp_handler behaviour uuid srv rq) = Forwarded t out)"
  using assms
  by (cases behaviour)
    (simp_all add: mcp_handler_def find_transport_def handleRequest_def is_handshake_def)

text \<open>
  Claim C5. An invocation that reaches the upstream sends one request. When that
  request fails (the network rejects it, the status is not 2xx, the payload's
  \<^verbatim>\<open>success\<close> is false, or there is success without data), \<^verbatim>\<open>makeRequest\<close> throws
  some \<open>e\<close>, and the handler returns a result tagged as an error whose \<^verbatim>\<open>error\<close> is
  the message of \<open>e\<close> (the rejection's own message, or the text the client builds for
  the kind of failure), whose \<^verbatim>\<open>tool\<close> is the tool's name and whose \<^verbatim>\<open>timestamp\<close> is
  the time of the call. The session remains usable: an invocation that follows in
  the session and whose upstream call succeeds gets its payload as a success result,
  and the request that carried the invocation leaves the session table as it was, so
  the next request with the same identifier reaches the same transport.
\<close>

theorem upstream_failure_reported:
  assumes "accepted nm args"
  shows "\<exists>rq. snd (callTool now fetch c nm args) = [rq]
     \<and> (upstream_fails (fetch rq) \<longrightarrow>
         (\<exists>e. upstream_result (fetch rq) = Inl e
            \<and> fst (callTool now fetch c nm args)
                = \<lparr>stringified =
               JObj [(''success'', JBool False),
                     (''error'', JStr (message e)),
                     (''tool'', JStr nm),
                     (''timestamp'', JStr now),
                     (''details'', JStr (''Failed to execute MCP tool: '' @ nm))],
             isError = True\<rparr>
            \<and> (\<forall>e'. fetch rq = Rejected e' \<longrightarrow> e = e')
            \<and> (\<forall>r t. fetch rq = Resolved r \<and> \<not> ok r \<and> body_text r = Inr t \<longrightarrow>
                  message e = ''API request failed: '' @ decimal (status r) @ '' '' @ statusText r
                              @ nl @ ''Response: '' @ t)
            \<and> (\<forall>r d. fetch rq = Resolved r \<and> ok r \<and> body_json r = Inr d \<and> d \<noteq> JNull
                      \<and> \<not> truthy (get_prop d ''success'') \<longrightarrow>
                  message e = ''API returned error: ''
                              @ js_String (nullish_or (get_prop d ''error'') (JStr ''Unknown error''))
                              @ nl @ ''Details: ''
                              @ js_String (nullish_or (get_prop d ''details'') (JStr ''No details'')))
            \<and> (\<forall>r d. fetch rq = Resolved r \<and> ok r \<and> body_json r = Inr d
                      \<and> truthy (get_prop d ''success'') \<and> \<not> truthy (get_prop d ''data'') \<longrightarrow>
                  message e = ''API returned success but no data'')
            \<and> (\<forall>now' fetch' nm' kvs' payload.
                  nm' \<in> set event_tools \<and> truthy (map_of kvs' ''eventId'')
                  \<and> (\<forall>rq'. upstream_result (fetch' rq') = Inr payload) \<longrightarrow>
                  map fst (serve c [(now, fetch, CallTool nm args),
                                    (now', fetch', CallTool nm' (Some kvs'))])
                    = [ToolResult \<lparr>stringified =
               JObj [(''success'', JBool False),
                     (''error'', JStr (message e)),
                     (''tool'', JStr nm),
                     (''timestamp'', JStr now),
                     (''details'', JStr (''Failed to execute MCP tool: '' @ nm))],
             isError = True\<rparr>,
                       ToolResult \<lparr>stringified = payload, isError = False\<rparr>])))
     \<and> (\<forall>behaviour uuid srv sid t carrier.
           transports srv sid = Some t \<and> sid \<noteq> [] \<and> session_header carrier = Some sid
           \<and> req_method carrier = ''POST'' \<and> \<not> is_initialize carrier \<longrightarrow>
           snd (mcp_handler behaviour uuid srv carrier) = srv
           \<and> (\<exists>out. fst (mcp_handler behaviour uuid srv carrier) = Forwarded t out))"
proof -
  obtain rq where sent: "snd (tool_switch fetch c nm args) = [rq]"
    and thrown: "\<And>e. upstream_result (fetch rq) = Inl e \<Longrightarrow> tool_switch fetch c nm args = (Inl e, [rq])"
    using accepted_sends_one [OF assms, of fetch c] by blast
  have s: "snd (callTool now fetch c nm args) = [rq]"
    using sent by (simp add: callTool_sent)
  have f: "upstream_fails (fetch rq) \<longrightarrow>
         (\<exists>e. upstream_result (fetch rq) = Inl e
            \<and> fst (callTool now fetch c nm args) = error_result (message e) nm now
            \<and> (\<forall>e'. fetch rq = Rejected e' \<longrightarrow> e = e')
            \<and> (\<forall>r t. fetch rq = Resolved r \<and> \<not> ok r \<and> body_text r = Inr t \<longrightarrow>
                  message e = ''API request failed: '' @ decimal (status r) @ '' '' @ statusText r
                              @ nl @ ''Response: '' @ t)
            \<and> (\<forall>r d. fetch rq = Resolved r \<and> ok r \<and> body_json r = Inr d \<and> d \<noteq> JNull
                      \<and> \<not> truthy (get_prop d ''success'') \<longrightarrow>
                  message e = ''API returned error: ''
                              @ js_String (nullish_or (get_prop d ''error'') (JStr ''Unknown error''))
                              @ nl @ ''Details: ''
                              @ js_String (nullish_or (get_prop d ''details'') (JStr ''No details'')))
            \<and> (\<forall>r d. fetch rq = Resolved r \<and> ok r \<and> body_json r = Inr d
                      \<and> truthy (get_prop d ''success'') \<and> \<not> truthy (get_prop d ''data'') \<longrightarrow>
                  message e = ''API returned success but no data'')
            \<and> (\<forall>now' fetch' nm' kvs' payload.
                  nm' \<in> set event_tools \<and> truthy (map_of kvs' ''eventId'')
                  \<and> (\<forall>rq'. upstream_result (fetch' rq') = Inr payload) \<longrightarrow>
                  map fst (serve c [(now, fetch, CallTool nm args),
                                    (now', fetch', CallTool nm' (Some kvs'))])
                    = [ToolResult (error_result (message e) nm now),
                       ToolResult \<lparr>stringified = payload, isError = False\<rparr>]))"
  proof
    assume "upstream_fails (fetch rq)"
    then obtain e where e: "upstream_result (fetch rq) = Inl e"
      using upstream_result_fails [of "fetch rq"] by blast
    have ct: "fst (callTool now fetch c nm args) = error_result (message e) nm now"
      by (simp add: callTool_def thrown [OF e])
    have later: "\<forall>now' fetch' nm' kvs' payload.
                  nm' \<in> set event_tools \<and> truthy (map_of kvs' ''eventId'')
                  \<and> (\<forall>rq'. upstream_result (fetch' rq') = Inr payload) \<longrightarrow>
                  map fst (serve c [(now, fetch, CallTool nm args),
                                    (now', fetch', CallTool nm' (Some kvs'))])
                    = [ToolResult (error_result (message e) nm now),
                       ToolResult \<lparr>stringified = payload, isError = False\<rparr>]"
    proof (intro allI impI)
      fix now' :: string and fetch' :: fetch and nm' :: string
        and kvs' :: "(string \<times> json) list" and payload :: json
      assume h: "nm' \<in> set event_tools \<and> truthy (map_of kvs' ''eventId'')
                  \<and> (\<forall>rq'. upstream_result (fetch' rq') = Inr payload)"
      have n: "fst (callTool now' fetch' c nm' (Some kvs')) = \<lparr>stringified = payload, isError = False\<rparr>"
        using next_invocation_succeeds [of nm' kvs' fetch' payload now' c] h by blast
      show "map fst (serve c [(now, fetch, CallTool nm args),
                                    (now', fetch', CallTool nm' (Some kvs'))])
                    = [ToolResult (error_result (message e) nm now),
                       ToolResult \<lparr>stringified = payload, isError = False\<rparr>]"
        using ct n by (auto simp: serve_def handle_rpc_def split: prod.splits)
    qed
    show "\<exists>e. upstream_result (fetch rq) = Inl e
            \<and> fst (callTool now fetch c nm args) = error_result (message e) nm now
            \<and> (\<forall>e'. fetch rq = Rejected e' \<longrightarrow> e = e')
            \<and> (\<forall>r t. fetch rq = Resolved r \<and> \<not> ok r \<and> body_text r = Inr t \<longrightarrow>
                  message e = ''API request failed: '' @ decimal (status r) @ '' '' @ statusText r
                              @ nl @ ''Response: '' @ t)
            \<and> (\<forall>r d. fetch rq = Resolved r \<and> ok r \<and> body_json r = Inr d \<and> d \<noteq> JNull
                      \<and> \<not> truthy (get_prop d ''success'') \<longrightarrow>
                  message e = ''API returned error: ''
                              @ js_String (nullish_or (get_prop d ''error'') (JStr ''Unknown error''))
                              @ nl @ ''Details: ''
                              @ js_String (nullish_or (get_prop d ''details'') (JStr ''No details'')))
            \<and> (\<forall>r d. fetch rq = Resolved r \<and> ok r \<and> body_json r = Inr d
                      \<and> truthy (get_prop d ''success'') \<and> \<not> truthy (get_prop d ''data'') \<longrightarrow>
                  message e = ''API returned success but no data'')
            \<and> (\<forall>now' fetch' nm' kvs' payload.
                  nm' \<in> set event_tools \<and> truthy (map_of kvs' ''eventId'')
                  \<and> (\<forall>rq'. upstream_result (fetch' rq') = Inr payload) \<longrightarrow>
                  map fst (serve c [(now, fetch, CallTool nm args),
                                    (now', fetch', CallTool nm' (Some kvs'))])
                    = [ToolResult (error_result (message e) nm now),
                       ToolResult \<lparr>stringified = payload, isError = False\<rparr>])"
      using e ct failure_kinds [OF e] later by blast
  qed
  have k: "\<forall>behaviour uuid srv sid t carrier.
           transports srv sid = Some t \<and> sid \<noteq> [] \<and> session_header carrier = Some sid
           \<and> req_method carrier = ''POST'' \<and> \<not> is_initialize carrier \<longrightarrow>
           snd (mcp_handler behaviour uuid srv carrier) = srv
           \<and> (\<exists>out. fst (mcp_handler behaviour uuid srv carrier) = Forwarded t out)"
    using known_session_kept by blast
  show ?thesis
    using s f k unfolding error_result_def by blast
qed

lemma probe_payload_result:
  "upstream_result (payload_fetch payload rq) = (if truthy (Some payload) then Inr payload
      else Inl (Error ''API returned success but no data''))"
  by (simp add: upstream_result_def read_response_def payload_fetch_def ok_def)

text \<open>
  An upstream that answers 500, one that cannot be reached, one that answers
  \<^verbatim>\<open>success: false\<close> and one that answers success without data, each to
  \<^verbatim>\<open>get_event_applications\<close>; after the first, an invocation whose upstream answers;
  and a request of a session that the table holds.
\<close>

theorem upstream_failure_reported_witness:
  "accepted ''get_event_applications'' event_arguments
   \<and> fst (callTool ''2025-01-01T00:00:00.000Z'' failing_fetch example_client
            ''get_event_applications'' event_arguments)
       = \<lparr>stringified =
            JObj [(''success'', JBool False),
                  (''error'', JStr (''API request failed: 500 Internal Server Error'' @ nl
                                    @ ''Response: upstream exploded'')),
                  (''tool'', JStr ''get_event_applications''),
                  (''timestamp'', JStr ''2025-01-01T00:00:00.000Z''),
                  (''details'', JStr ''Failed to execute MCP tool: get_event_applications'')],
          isError = True\<rparr>
   \<and> map fst (serve example_client
         [(''2025-01-01T00:00:00.000Z'', failing_fetch,
             CallTool ''get_event_applications'' event_arguments),
          (''2025-01-01T00:00:05.000Z'', payload_fetch probe_payload,
             CallTool ''get_event_evaluations'' event_arguments)])
       = [ToolResult
            \<lparr>stringified =
               JObj [(''success'', JBool False),
                     (''error'', JStr (''API request failed: 500 Internal Server Error'' @ nl
                                       @ ''Response: upstream exploded'')),
                     (''tool'', JStr ''get_event_applications''),
                     (''timestamp'', JStr ''2025-01-01T00:00:00.000Z''),
                     (''details'', JStr ''Failed to execute MCP tool: get_event_applications'')],
             isError = True\<rparr>,
          ToolResult \<lparr>stringified = probe_payload, isError = False\<rparr>]
   \<and> fst (callTool ''2025-01-01T00:00:00.000Z'' rejecting_fetch example_client
            ''get_event_applications'' event_arguments)
       = \<lparr>stringified =
            JObj [(''success'', JBool False),
                  (''error'', JStr ''connect ECONNREFUSED 127.0.0.1:3000''),
                  (''tool'', JStr ''get_event_applications''),
                  (''timestamp'', JStr ''2025-01-01T00:00:00.000Z''),
                  (''details'', JStr ''Failed to execute MCP tool: get_event_applications'')],
          isError = True\<rparr>
   \<and> fst (callTool ''2025-01-01T00:00:00.000Z'' refusing_fetch example_client
            ''get_event_applications'' event_arguments)
       = \<lparr>stringified =
            JObj [(''success'', JBool False),
                  (''error'', JStr (''API returned error: Event not found'' @ nl
                                    @ ''Details: No details'')),
                  (''tool'', JStr ''get_event_applications''),
                  (''timestamp'', JStr ''2025-01-01T00:00:00.000Z''),
                  (''details'', JStr ''Failed to execute MCP tool: get_event_applications'')],
          isError = True\<rparr>
   \<and> fst (callTool ''2025-01-01T00:00:00.000Z'' empty_fetch example_client
            ''get_event_applications'' event_arguments)
       = \<lparr>stringified =
            JObj [(''success'', JBool False),
                  (''error'', JStr ''API returned success but no data''),
                  (''tool'', JStr ''get_event_applications''),
                  (''timestamp'', JStr ''2025-01-01T00:00:00.000Z''),
                  (''details'', JStr ''Failed to execute MCP tool: get_event_applications'')],
          isError = True\<rparr>
   \<and> snd (mcp_handler Accepts ''uuid-2''
            (fresh_server\<lparr>transports := [''uuid-1'' \<mapsto> 0], sessionIds := [0 \<mapsto> ''uuid-1''],
                           created := 1\<rparr>)
            (list_request ''uuid-1''))
       = fresh_server\<lparr>transports := [''uuid-1'' \<mapsto> 0], sessionIds := [0 \<mapsto> ''uuid-1''],
                        created := 1\<rparr>"
proof -
  have a: "accepted ''get_event_applications'' event_arguments"
    by (simp add: accepted_def event_tools_eq event_arguments_def)
  have d: "decimal 500 = ''500''" by code_simp
  have ev: "''get_event_evaluations'' \<in> set event_tools
            \<and> truthy (map_of [(''eventId'', JStr ''11111111-1111-1111-1111-111111111111'')] ''eventId'')
            \<and> (\<forall>rq'. upstream_result (payload_fetch probe_payload rq') = Inr probe_payload)"
    by (simp add: event_tools_eq probe_payload_result) (simp add: probe_payload_def)
  note th = upstream_failure_reported [OF a, of "''2025-01-01T00:00:00.000Z''" _ example_client]
  have f500: "upstream_fails (failing_fetch rq)" for rq
    by (simp add: upstream_fails_def failing_fetch_def ok_def)
  have w1: "fst (callTool ''2025-01-01T00:00:00.000Z'' failing_fetch example_client
            ''get_event_applications'' event_arguments)
       = \<lparr>stringified =
            JObj [(''success'', JBool False),
                  (''error'', JStr (''API request failed: 500 Internal Server Error'' @ nl
                                    @ ''Response: upstream exploded'')),
                  (''tool'', JStr ''get_event_applications''),
                  (''timestamp'', JStr ''2025-01-01T00:00:00.000Z''),
                  (''details'', JStr ''Failed to execute MCP tool: get_event_applications'')],
          isError = True\<rparr>"
    using th [of failing_fetch] f500
    by (auto simp: failing_fetch_def ok_def d)
  have w2: "map fst (serve example_client
         [(''2025-01-01T00:00:00.000Z'', failing_fetch,
             CallTool ''get_event_applications'' event_arguments),
          (''2025-01-01T00:00:05.000Z'', payload_fetch probe_payload,
             CallTool ''get_event_evaluations'' event_arguments)])
       = [ToolResult
            \<lparr>stringified =
               JObj [(''success'', JBool False),
                     (''error'', JStr (''API request failed: 500 Internal Server Error'' @ nl
                                       @ ''Response: upstream exploded'')),
                     (''tool'', JStr ''get_event_applications''),
                     (''timestamp'', JStr ''2025-01-01T00:00:00.000Z''),
                     (''details'', JStr ''Failed to execute MCP tool: get_event_applications'')],
             isError = True\<rparr>,
          ToolResult \<lparr>stringified = probe_payload, isError = False\<rparr>]"
    using th [of failing_fetch] f500 ev w1
    by (auto simp: event_arguments_def)
  have w3: "fst (callTool ''2025-01-01T00:00:00.000Z'' rejecting_fetch example_client
            ''get_event_applications'' event_arguments)
       = \<lparr>stringified =
            JObj [(''success'', JBool False),
                  (''error'', JStr ''connect ECONNREFUSED 127.0.0.1:3000''),
                  (''tool'', JStr ''get_event_applications''),
                  (''timestamp'', JStr ''2025-01-01T00:00:00.000Z''),
                  (''details'', JStr ''Failed to execute MCP tool: get_event_applications'')],
          isError = True\<rparr>"
    using th [of rejecting_fetch]
    by (auto simp: rejecting_fetch_def upstream_fails_def)
  have w4: "fst (callTool ''2025-01-01T00:00:00.000Z'' refusing_fetch example_client
            ''get_event_applications'' event_arguments)
       = \<lparr>stringified =
            JObj [(''success'', JBool False),
                  (''error'', JStr (''API returned error: Event not found'' @ nl
                                    @ ''Details: No details'')),
                  (''tool'', JStr ''get_event_applications''),
                  (''timestamp'', JStr ''2025-01-01T00:00:00.000Z''),
                  (''details'', JStr ''Failed to execute MCP tool: get_event_applications'')],
          isError = True\<rparr>"
    using th [of refusing_fetch]
    by (auto simp: refusing_fetch_def upstream_fails_def ok_def nullish_or_def)
  have w5: "fst (callTool ''2025-01-01T00:00:00.000Z'' empty_fetch example_client
            ''get_event_applications'' event_arguments)
       = \<lparr>stringified =
            JObj [(''success'', JBool False),
                  (''error'', JStr ''API returned success but no data''),
                  (''tool'', JStr ''get_event_applications''),
                  (''timestamp'', JStr ''2025-01-01T00:00:00.000Z''),
                  (''details'', JStr ''Failed to execute MCP tool: get_event_applications'')],
          isError = True\<rparr>"
    using th [of empty_fetch]
    by (auto simp: empty_fetch_def upstream_fails_def ok_def)
  have k: "transports (fresh_server\<lparr>transports := [''uuid-1'' \<mapsto> 0], sessionIds := [0 \<mapsto> ''uuid-1''],
                           created := 1\<rparr>) ''uuid-1'' = Some 0
           \<and> ''uuid-1'' \<noteq> [] \<and> session_header (list_request ''uuid-1'') = Some ''uuid-1''
           \<and> req_method (list_request ''uuid-1'') = ''POST'' \<and> \<not> is_initialize (list_request ''uuid-1'')"
    by (simp add: list_request_def)
  have w6: "snd (mcp_handler Accepts ''uuid-2''
            (fresh_server\<lparr>transports := [''uuid-1'' \<mapsto> 0], sessionIds := [0 \<mapsto> ''uuid-1''],
                           created := 1\<rparr>)
            (list_request ''uuid-1''))
       = fresh_server\<lparr>transports := [''uuid-1'' \<mapsto> 0], sessionIds := [0 \<mapsto> ''uuid-1''],
                        created := 1\<rparr>"
    using th [of failing_fetch] k
    by blast
  show ?thesis
    using a w1 w2 w3 w4 w5 w6 by blast
qed

lemma probe_run:
  "testConnection probe_fetch example_client
     = (Inr probe_payload,
        [\<lparr>url = ''https://ftc.example/api/mastra/test'', http_method = ''GET'',
          headers = [(''Authorization'', ''Bearer secret''),
                     (''Content-Type'', ''application/json''),
                     (''User-Agent'', ''FTC-MCP-Server/1.0.0'')]\<rparr>])"
  by (simp add: testConnection_def makeRequest_def upstream_result_def read_response_def
        probe_fetch_def probe_payload_def example_client_def ok_def Let_def)

text \<open>
  Claim C8, as the code has it. When the probe of \<^verbatim>\<open>test_connection\<close> succeeds with
  a payload, the same handler returns a result that is not an error and whose object
  has the client's status flags \<open>configured\<close>, \<open>baseUrl\<close> and \<open>hasApiKey\<close> under
  \<^verbatim>\<open>apiClient\<close>, the server's name under \<^verbatim>\<open>mcpServer\<close> and \<^verbatim>\<open>1.0.0\<close> under
  \<^verbatim>\<open>version\<close>, and, under every other name, what the payload has under that name: for
  a payload that is an object, in particular its \<^verbatim>\<open>timestamp\<close>. What the payload has
  under one of the three names is overwritten, and a payload that is a boolean or a
  number adds nothing.
\<close>

theorem probe_success:
  assumes "testConnection fetch c = (Inr payload, sent)"
  shows "\<exists>obj. callTool now fetch c ''test_connection'' args
                 = (\<lparr>stringified = JObj obj, isError = False\<rparr>, sent)
       \<and> map_of obj ''apiClient''
           = Some (JObj [(''configured'', JBool (configured (getStatus c))),
                         (''baseUrl'', JStr (status_baseUrl (getStatus c))),
                         (''hasApiKey'', JBool (hasApiKey (getStatus c)))])
       \<and> map_of obj ''mcpServer'' = Some (JStr ''ftc-platform-mcp'')
       \<and> map_of obj ''version'' = Some (JStr ''1.0.0'')
       \<and> (\<forall>k. k \<notin> {''mcpServer'', ''version'', ''apiClient''} \<longrightarrow>
              map_of obj k = map_of (spread payload) k)
       \<and> (\<forall>kvs. payload = JObj kvs \<longrightarrow> map_of obj ''timestamp'' = map_of kvs ''timestamp'')
       \<and> (\<forall>k. (\<exists>b. payload = JBool b) \<or> (\<exists>z p. payload = JNum z p) \<longrightarrow>
              k \<notin> {''mcpServer'', ''version'', ''apiClient''} \<longrightarrow> map_of obj k = None)"
proof -
  let ?obj = "AList.update ''apiClient'' (status_json (getStatus c))
                (AList.update ''version'' (JStr ''1.0.0'')
                  (AList.update ''mcpServer'' (JStr ''ftc-platform-mcp'') (spread payload)))"
  have call: "callTool now fetch c ''test_connection'' args
               = (\<lparr>stringified = JObj ?obj, isError = False\<rparr>, sent)"
    by (simp add: callTool_def tool_switch_def assms)
  have flags: "map_of ?obj ''apiClient'' = Some (status_json (getStatus c))"
    by (simp add: update_conv')
  have srv: "map_of ?obj ''mcpServer'' = Some (JStr ''ftc-platform-mcp'')"
    by (simp add: update_conv')
  have ver: "map_of ?obj ''version'' = Some (JStr ''1.0.0'')"
    by (simp add: update_conv')
  have rest: "\<And>k. k \<notin> {''mcpServer'', ''version'', ''apiClient''} \<Longrightarrow>
                map_of ?obj k = map_of (spread payload) k"
    by (simp add: update_conv')
  have stamp: "\<And>kvs. payload = JObj kvs \<Longrightarrow> map_of ?obj ''timestamp'' = map_of kvs ''timestamp''"
    by (simp add: update_conv')
  have prim: "\<And>k. (\<exists>b. payload = JBool b) \<or> (\<exists>z p. payload = JNum z p) \<Longrightarrow>
                k \<notin> {''mcpServer'', ''version'', ''apiClient''} \<Longrightarrow> map_of ?obj k = None"
    by (auto simp: update_conv')
  show ?thesis
    using call flags srv ver rest stamp prim unfolding status_json_def by blast
qed

text \<open>A probe whose payload has the three declared fields, and one whose payload is \<^verbatim>\<open>true\<close>.\<close>

theorem probe_success_witness:
  "(\<exists>obj. callTool ''2025-01-01T00:00:01.000Z'' probe_fetch example_client ''test_connection'' (Some [])
           = (\<lparr>stringified = JObj obj, isError = False\<rparr>,
              [\<lparr>url = ''https://ftc.example/api/mastra/test'', http_method = ''GET'',
                headers = [(''Authorization'', ''Bearer secret''),
                           (''Content-Type'', ''application/json''),
                           (''User-Agent'', ''FTC-MCP-Server/1.0.0'')]\<rparr>])
       \<and> map_of obj ''apiClient''
           = Some (JObj [(''configured'', JBool True),
                         (''baseUrl'', JStr ''https://ftc.example/api/mastra''),
                         (''hasApiKey'', JBool True)])
       \<and> map_of obj ''mcpServer'' = Some (JStr ''ftc-platform-mcp'')
       \<and> map_of obj ''version'' = Some (JStr ''1.0.0'')
       \<and> map_of obj ''timestamp'' = Some (JStr ''2025-01-01T00:00:00.000Z'')
       \<and> map_of obj ''message'' = Some (JStr ''API is up''))
   \<and> (\<exists>obj sent. callTool ''2025-01-01T00:00:01.000Z'' (payload_fetch (JBool True)) example_client
                     ''test_connection'' None
                   = (\<lparr>stringified = JObj obj, isError = False\<rparr>, sent)
          \<and> map_of obj ''timestamp'' = None)"
proof -
  from probe_success [OF probe_run, of "''2025-01-01T00:00:01.000Z''" "Some []"]
  obtain obj where o: "callTool ''2025-01-01T00:00:01.000Z'' probe_fetch example_client ''test_connection'' (Some [])
                 = (\<lparr>stringified = JObj obj, isError = False\<rparr>, [\<lparr>url = ''https://ftc.example/api/mastra/test'', http_method = ''GET'',
                headers = [(''Authorization'', ''Bearer secret''),
                           (''Content-Type'', ''application/json''),
                           (''User-Agent'', ''FTC-MCP-Server/1.0.0'')]\<rparr>])
       \<and> map_of obj ''apiClient''
           = Some (JObj [(''configured'', JBool (configured (getStatus example_client))),
                         (''baseUrl'', JStr (status_baseUrl (getStatus example_client))),
                         (''hasApiKey'', JBool (hasApiKey (getStatus example_client)))])
       \<and> map_of obj ''mcpServer'' = Some (JStr ''ftc-platform-mcp'')
       \<and> map_of obj ''version'' = Some (JStr ''1.0.0'')
       \<and> (\<forall>k. k \<notin> {''mcpServer'', ''version'', ''apiClient''} \<longrightarrow>
              map_of obj k = map_of (spread probe_payload) k)
       \<and> (\<forall>kvs. probe_payload = JObj kvs \<longrightarrow> map_of obj ''timestamp'' = map_of kvs ''timestamp'')
       \<and> (\<forall>k. (\<exists>b. probe_payload = JBool b) \<or> (\<exists>z p. probe_payload = JNum z p) \<longrightarrow>
              k \<notin> {''mcpServer'', ''version'', ''apiClient''} \<longrightarrow> map_of obj k = None)"
    by (rule exE)
  note call = o [THEN conjunct1]
  note flags = o [THEN conjunct2, THEN conjunct1]
  note name = o [THEN conjunct2, THEN conjunct2, THEN conjunct1]
  note version = o [THEN conjunct2, THEN conjunct2, THEN conjunct2, THEN conjunct1]
  note others = o [THEN conjunct2, THEN conjunct2, THEN conjunct2, THEN conjunct2, THEN conjunct1]
  have f: "map_of obj ''apiClient''
           = Some (JObj [(''configured'', JBool True),
                         (''baseUrl'', JStr ''https://ftc.example/api/mastra''),
                         (''hasApiKey'', JBool True)])"
    using flags by (simp add: getStatus_def example_client_def)
  have "map_of obj ''timestamp'' = map_of (spread probe_payload) ''timestamp''"
    using others [THEN spec, of "''timestamp''"] by simp
  then have t: "map_of obj ''timestamp'' = Some (JStr ''2025-01-01T00:00:00.000Z'')"
    by (simp add: probe_payload_def)
  have "map_of obj ''message'' = map_of (spread probe_payload) ''message''"
    using others [THEN spec, of "''message''"] by simp
  then have m: "map_of obj ''message'' = Some (JStr ''API is up'')"
    by (simp add: probe_payload_def)
  have first: "callTool ''2025-01-01T00:00:01.000Z'' probe_fetch example_client ''test_connection'' (Some [])
           = (\<lparr>stringified = JObj obj, isError = False\<rparr>,
              [\<lparr>url = ''https://ftc.example/api/mastra/test'', http_method = ''GET'',
                headers = [(''Authorization'', ''Bearer secret''),
                           (''Content-Type'', ''application/json''),
                           (''User-Agent'', ''FTC-MCP-Server/1.0.0'')]\<rparr>])
       \<and> map_of obj ''apiClient''
           = Some (JObj [(''configured'', JBool True),
                         (''baseUrl'', JStr ''https://ftc.example/api/mastra''),
                         (''hasApiKey'', JBool True)])
       \<and> map_of obj ''mcpServer'' = Some (JStr ''ftc-platform-mcp'')
       \<and> map_of obj ''version'' = Some (JStr ''1.0.0'')
       \<and> map_of obj ''timestamp'' = Some (JStr ''2025-01-01T00:00:00.000Z'')
       \<and> map_of obj ''message'' = Some (JStr ''API is up'')"
    using call f name version t m by simp
  have run: "testConnection (payload_fetch (JBool True)) example_client
             = (Inr (JBool True), (snd (testConnection (payload_fetch (JBool True)) example_client)))"
    by (simp add: testConnection_def makeRequest_def probe_payload_result Let_def)
  from probe_success [OF run, of "''2025-01-01T00:00:01.000Z''" None]
  obtain obj' where o': "callTool ''2025-01-01T00:00:01.000Z'' (payload_fetch (JBool True)) example_client ''test_connection'' None
                 = (\<lparr>stringified = JObj obj', isError = False\<rparr>, (snd (testConnection (payload_fetch (JBool True)) example_client)))
       \<and> map_of obj' ''apiClient''
           = Some (JObj [(''configured'', JBool (configured (getStatus example_client))),
                         (''baseUrl'', JStr (status_baseUrl (getStatus example_client))),
                         (''hasApiKey'', JBool (hasApiKey (getStatus example_client)))])
       \<and> map_of obj' ''mcpServer'' = Some (JStr ''ftc-platform-mcp'')
       \<and> map_of obj' ''version'' = Some (JStr ''1.0.0'')
       \<and> (\<forall>k. k \<notin> {''mcpServer'', ''version'', ''apiClient''} \<longrightarrow>
              map_of obj' k = map_of (spread (JBool True)) k)
       \<and> (\<forall>kvs. (JBool True) = JObj kvs \<longrightarrow> map_of obj' ''timestamp'' = map_of kvs ''timestamp'')
       \<and> (\<forall>k. (\<exists>b. (JBool True) = JBool b) \<or> (\<exists>z p. (JBool True) = JNum z p) \<longrightarrow>
              k \<notin> {''mcpServer'', ''version'', ''apiClient''} \<longrightarrow> map_of obj' k = None)"
    by (rule exE)
  note call' = o' [THEN conjunct1]
  note prim' = o' [THEN conjunct2, THEN conjunct2, THEN conjunct2, THEN conjunct2, THEN conjunct2,
                   THEN conjunct2]
  have "map_of obj' ''timestamp'' = None"
    using prim' [THEN spec, of "''timestamp''"] by auto
  with call' have second: "callTool ''2025-01-01T00:00:01.000Z'' (payload_fetch (JBool True)) example_client
                     ''test_connection'' None
                   = (\<lparr>stringified = JObj obj', isError = False\<rparr>, (snd (testConnection (payload_fetch (JBool True)) example_client)))
          \<and> map_of obj' ''timestamp'' = None"
    by simp
  show ?thesis
    by (rule conjI, rule exI [of _ obj], rule first, rule exI [of _ obj'], rule exI, rule second)
qed

text \<open>
  A probe whose payload has a \<^verbatim>\<open>version\<close> of its own: the result is a success, and
  its \<^verbatim>\<open>version\<close> is the server's, not the payload's. A probe whose payload is
  \<^verbatim>\<open>true\<close>: the result is a success that holds the three added names only, and no
  time stamp.
\<close>

theorem probe_payload_counterexample:
  "callTool ''2025-01-01T00:00:01.000Z'' (payload_fetch clash_payload) example_client
       ''test_connection'' (Some [])
     = (\<lparr>stringified =
           JObj [(''success'', JBool True), (''message'', JStr ''API is up''),
                 (''timestamp'', JStr ''2025-01-01T00:00:00.000Z''),
                 (''version'', JStr ''1.0.0''),
                 (''mcpServer'', JStr ''ftc-platform-mcp''),
                 (''apiClient'', JObj [(''configured'', JBool True),
                                       (''baseUrl'', JStr ''https://ftc.example/api/mastra''),
                                       (''hasApiKey'', JBool True)])],
         isError = False\<rparr>,
        [\<lparr>url = ''https://ftc.example/api/mastra/test'', http_method = ''GET'',
          headers = [(''Authorization'', ''Bearer secret''),
                     (''Content-Type'', ''application/json''),
                     (''User-Agent'', ''FTC-MCP-Server/1.0.0'')]\<rparr>])
   \<and> get_prop clash_payload ''version'' = Some (JStr ''9'')
   \<and> callTool ''2025-01-01T00:00:01.000Z'' (payload_fetch (JBool True)) example_client
       ''test_connection'' (Some [])
     = (\<lparr>stringified =
           JObj [(''mcpServer'', JStr ''ftc-platform-mcp''),
                 (''version'', JStr ''1.0.0''),
                 (''apiClient'', JObj [(''configured'', JBool True),
                                       (''baseUrl'', JStr ''https://ftc.example/api/mastra''),
                                       (''hasApiKey'', JBool True)])],
         isError = False\<rparr>,
        [\<lparr>url = ''https://ftc.example/api/mastra/test'', http_method = ''GET'',
          headers = [(''Authorization'', ''Bearer secret''),
                     (''Content-Type'', ''application/json''),
                     (''User-Agent'', ''FTC-MCP-Server/1.0.0'')]\<rparr>])"
  by (simp add: callTool_def tool_switch_def testConnection_def makeRequest_def
        probe_payload_result clash_payload_def status_json_def getStatus_def example_client_def
        Let_def)

section \<open>The router\<close>

lemma dom_onclose: "dom (transports (onclose srv t)) \<subseteq> dom (transports srv)"
  by (auto simp: onclose_def split: option.splits if_splits)

lemma handleRequest_dom:
  assumes "handleRequest behaviour uuid srv t rq = (rsp, srv')"
  shows "dom (transports srv') \<subseteq>
           dom (transports srv) \<union> set (minted_by (Request behaviour uuid rq, Some rsp))"
proof (cases behaviour)
  case Accepts
  show ?thesis
  proof (cases "is_handshake rq")
    case True
    with Accepts assms show ?thesis
      by (auto simp: handleRequest_def onsessioninitialized_def Let_def
            split: option.splits if_splits)
  next
    case False
    with Accepts assms dom_onclose [of srv t] show ?thesis
      by (auto simp: handleRequest_def split: if_splits)
  qed
next
  case Refuses
  with assms show ?thesis by (auto simp: handleRequest_def)
next
  case (Throws d)
  with assms show ?thesis by (auto simp: handleRequest_def)
qed

lemma mcp_handler_dom:
  assumes "mcp_handler behaviour uuid srv rq = (rsp, srv')"
  shows "dom (transports srv') \<subseteq>
           dom (transports srv) \<union> set (minted_by (Request behaviour uuid rq, Some rsp))"
proof (cases "find_transport srv (session_header rq)")
  case (Some t)
  with assms have "handleRequest behaviour uuid srv t rq = (rsp, srv')"
    by (simp add: mcp_handler_def)
  then show ?thesis by (rule handleRequest_dom)
next
  case None
  show ?thesis
  proof (cases "req_method rq = ''POST'' \<and> is_initialize rq")
    case True
    with None assms
    have "handleRequest behaviour uuid
            (srv\<lparr>created := Suc (created srv), sessionIds := (sessionIds srv)(created srv := None)\<rparr>)
            (created srv) rq = (rsp, srv')"
      by (simp add: mcp_handler_def Let_def)
    from handleRequest_dom [OF this] show ?thesis by simp
  next
    case False
    with None assms have "srv' = srv"
      by (auto simp: mcp_handler_def Let_def split: if_splits)
    then show ?thesis by simp
  qed
qed

lemma step_dom:
  assumes "step srv ev = (rsp, srv')"
  shows "dom (transports srv') \<subseteq> dom (transports srv) \<union> set (minted_by (ev, rsp))"
proof (cases ev)
  case (Request behaviour uuid rq)
  with assms obtain r where "mcp_handler behaviour uuid srv rq = (r, srv')" "rsp = Some r"
    by (auto split: prod.splits)
  with Request mcp_handler_dom [of behaviour uuid srv rq r srv'] show ?thesis by simp
next
  case (Close t)
  with assms dom_onclose [of srv t] show ?thesis by auto
qed

lemma run_dom:
  "run srv evs = (log, srv') \<Longrightarrow>
   dom (transports srv') \<subseteq> dom (transports srv) \<union> set (minted log)"
proof (induction evs arbitrary: srv log)
  case Nil
  then show ?case by (simp add: minted_def)
next
  case (Cons ev evs)
  obtain rsp srv1 where s: "step srv ev = (rsp, srv1)" by (cases "step srv ev")
  obtain log1 where r: "run srv1 evs = (log1, srv')" and l: "log = (ev, rsp) # log1"
    using Cons.prems s by (auto split: prod.splits)
  have "dom (transports srv') \<subseteq> dom (transports srv1) \<union> set (minted log1)"
    using Cons.IH [OF r] .
  moreover have "dom (transports srv1) \<subseteq> dom (transports srv) \<union> set (minted_by (ev, rsp))"
    using step_dom [OF s] .
  ultimately show ?case unfolding l minted_def by auto
qed

lemma handleRequest_transport:
  "handleRequest behaviour uuid srv x rq = (Forwarded t out, srv') \<Longrightarrow> x = t"
  by (auto simp: handleRequest_def Let_def split: sdk.splits option.splits if_splits)

lemma forwarded_non_handshake:
  assumes "mcp_handler behaviour uuid srv rq = (Forwarded t out, srv')" and "\<not> is_handshake rq"
  shows "\<exists>sid. session_header rq = Some sid \<and> transports srv sid = Some t"
  using assms
  by (auto simp: mcp_handler_def find_transport_def is_handshake_def Let_def
        split: option.splits if_splits dest: handleRequest_transport)

lemma handshake_run:
  "fst (run fresh_server [Request Accepts ''uuid-1'' initialize_request])
     = [(Request Accepts ''uuid-1'' initialize_request, Some (Forwarded 0 (Processed (Some ''uuid-1''))))]
   \<and> transports (snd (run fresh_server [Request Accepts ''uuid-1'' initialize_request]))
     = [''uuid-1'' \<mapsto> 0]
   \<and> sessionIds (snd (run fresh_server [Request Accepts ''uuid-1'' initialize_request]))
     = [0 \<mapsto> ''uuid-1'']"
  by (simp add: mcp_handler_def find_transport_def handleRequest_def is_handshake_def
        onsessioninitialized_def fresh_server_def initialize_request_def Let_def)

text \<open>
  Claim C2. Take any run of a server that started with an empty session table, and a
  request after it that is not a handshake (not a \<^verbatim>\<open>POST\<close> of an initialize
  request). If the handler passes the request to a transport, then the request
  carries a session identifier that a handshake of the run produced. If the request
  carries no session identifier, it is answered with status 400, code -32000 and
  \<^verbatim>\<open>No session ID provided. Initialize first.\<close>, and the server is unchanged.
\<close>

theorem no_dispatch_before_handshake:
  assumes "transports srv0 = Map.empty"
    and "run srv0 evs = (log, srv)"
    and "\<not> is_handshake rq"
    and "mcp_handler behaviour uuid srv rq = (rsp, srv')"
  shows "(\<forall>t out. rsp = Forwarded t out \<longrightarrow>
            (\<exists>sid. session_header rq = Some sid \<and> sid \<in> set (minted log)))
       \<and> (session_header rq = None \<or> session_header rq = Some [] \<longrightarrow>
            rsp = JsonRpcError 400 (- 32000) ''No session ID provided. Initialize first.''
            \<and> srv' = srv)"
proof -
  have inv: "dom (transports srv) \<subseteq> set (minted log)"
    using run_dom [OF assms(2)] assms(1) by simp
  have a: "\<forall>t out. rsp = Forwarded t out \<longrightarrow>
            (\<exists>sid. session_header rq = Some sid \<and> sid \<in> set (minted log))"
  proof (intro allI impI)
    fix t out
    assume "rsp = Forwarded t out"
    with assms(4) have "mcp_handler behaviour uuid srv rq = (Forwarded t out, srv')" by simp
    from forwarded_non_handshake [OF this assms(3)]
    obtain sid where "session_header rq = Some sid" "transports srv sid = Some t" by blast
    with inv show "\<exists>sid. session_header rq = Some sid \<and> sid \<in> set (minted log)" by auto
  qed
  have b: "session_header rq = None \<or> session_header rq = Some [] \<longrightarrow>
            rsp = JsonRpcError 400 (- 32000) ''No session ID provided. Initialize first.''
            \<and> srv' = srv"
    using assms(3,4)
    by (auto simp: mcp_handler_def find_transport_def is_handshake_def Let_def)
  show ?thesis using a b by blast
qed

text \<open>
  After one handshake, a request with the identifier it produced is passed on; before
  any handshake, a request without identifier is refused.
\<close>

theorem no_dispatch_before_handshake_witness:
  "fst (mcp_handler Accepts ''uuid-2''
          (snd (run fresh_server [Request Accepts ''uuid-1'' initialize_request]))
          (list_request ''uuid-1''))
     = Forwarded 0 (Processed None)
   \<and> ''uuid-1'' \<in> set (minted (fst (run fresh_server [Request Accepts ''uuid-1'' initialize_request])))
   \<and> mcp_handler Accepts ''uuid-2'' fresh_server
        \<lparr>session_header = None, req_method = ''POST'', is_initialize = False\<rparr>
     = (JsonRpcError 400 (- 32000) ''No session ID provided. Initialize first.'', fresh_server)"
proof -
  let ?evs = "[Request Accepts ''uuid-1'' initialize_request]"
  let ?srv = "snd (run fresh_server ?evs)"
  let ?nosession = "\<lparr>session_header = None, req_method = ''POST'', is_initialize = False\<rparr>"
  have e: "transports fresh_server = Map.empty"
    by (simp add: fresh_server_def)
  have r: "run fresh_server ?evs = (fst (run fresh_server ?evs), ?srv)"
    by simp
  have r0: "run fresh_server [] = ([], fresh_server)"
    by simp
  have h: "\<not> is_handshake (list_request ''uuid-1'')"
    by (simp add: is_handshake_def list_request_def)
  have h0: "\<not> is_handshake ?nosession"
    by (simp add: is_handshake_def)
  have f: "mcp_handler Accepts ''uuid-2'' ?srv (list_request ''uuid-1'')
             = (Forwarded 0 (Processed None), ?srv)"
    using handshake_run
    by (simp add: mcp_handler_def find_transport_def handleRequest_def is_handshake_def
          list_request_def Let_def)
  have "\<exists>sid. session_header (list_request ''uuid-1'') = Some sid
           \<and> sid \<in> set (minted (fst (run fresh_server ?evs)))"
    using no_dispatch_before_handshake [OF e r h f] by blast
  then have m: "''uuid-1'' \<in> set (minted (fst (run fresh_server ?evs)))"
    by (simp add: list_request_def)
  have "mcp_handler Accepts ''uuid-2'' fresh_server ?nosession
          = (fst (mcp_handler Accepts ''uuid-2'' fresh_server ?nosession),
             snd (mcp_handler Accepts ''uuid-2'' fresh_server ?nosession))"
    by simp
  from no_dispatch_before_handshake [OF e r0 h0 this]
  have n: "mcp_handler Accepts ''uuid-2'' fresh_server ?nosession
     = (JsonRpcError 400 (- 32000) ''No session ID provided. Initialize first.'', fresh_server)"
    by (simp add: prod_eq_iff)
  show ?thesis using f m n by simp
qed

lemma handshake_creates_transport:
  assumes "is_handshake rq" and "find_transport srv (session_header rq) = None"
  shows "(\<exists>out. fst (mcp_handler behaviour uuid srv rq) = Forwarded (created srv) out)
       \<and> created (snd (mcp_handler behaviour uuid srv rq)) = Suc (created srv)
       \<and> (behaviour = Accepts \<and> uuid \<noteq> [] \<longrightarrow>
            fst (mcp_handler behaviour uuid srv rq) = Forwarded (created srv) (Processed (Some uuid))
            \<and> transports (snd (mcp_handler behaviour uuid srv rq))
                = (transports srv)(uuid \<mapsto> created srv))
       \<and> (behaviour \<noteq> Accepts \<longrightarrow>
            transports (snd (mcp_handler behaviour uuid srv rq)) = transports srv)"
  using assms
  by (cases behaviour)
    (simp_all add: mcp_handler_def handleRequest_def is_handshake_def onsessioninitialized_def
       Let_def)

text \<open>
  Claim C1, as the code has it. A request that is not a handshake (not a \<^verbatim>\<open>POST\<close> of
  an initialize request) and carries a non-empty session identifier that the session
  table does not hold is answered with status 400, code -32000 and
  \<^verbatim>\<open>Invalid session ID or session expired\<close>, and the server is unchanged: no session
  is created. This is so in particular once the close handler of the transport that
  owned the identifier has run. A handshake that carries an identifier the table does
  not hold is not answered so: the handler creates a transport and passes the request
  to it, and when the SDK accepts the handshake the table gets the new session, under
  the identifier just generated; when the SDK does not, the table stays as it was. An
  empty session header counts as none: a request with it that is not a handshake is
  answered with \<^verbatim>\<open>No session ID provided. Initialize first.\<close>
\<close>

theorem invalid_session:
  "(session_header rq = Some sid \<and> sid \<noteq> [] \<and> \<not> is_handshake rq \<and> transports srv sid = None \<longrightarrow>
      mcp_handler behaviour uuid srv rq = (JsonRpcError 400 (- 32000) ''Invalid session ID or session expired'', srv))
   \<and> (session_header rq = Some sid \<and> sid \<noteq> [] \<and> \<not> is_handshake rq
        \<and> sessionIds srv t = Some sid \<longrightarrow>
      mcp_handler behaviour uuid (onclose srv t) rq = (JsonRpcError 400 (- 32000) ''Invalid session ID or session expired'', onclose srv t))
   \<and> (session_header rq = Some sid \<and> is_handshake rq \<and> transports srv sid = None \<longrightarrow>
        (\<exists>out. fst (mcp_handler behaviour uuid srv rq) = Forwarded (created srv) out)
        \<and> created (snd (mcp_handler behaviour uuid srv rq)) = Suc (created srv)
        \<and> (behaviour = Accepts \<and> uuid \<noteq> [] \<longrightarrow>
             fst (mcp_handler behaviour uuid srv rq)
               = Forwarded (created srv) (Processed (Some uuid))
             \<and> transports (snd (mcp_handler behaviour uuid srv rq))
                 = (transports srv)(uuid \<mapsto> created srv))
        \<and> (behaviour \<noteq> Accepts \<longrightarrow>
             transports (snd (mcp_handler behaviour uuid srv rq)) = transports srv))
   \<and> (session_header rq = Some [] \<and> \<not> is_handshake rq \<longrightarrow>
        mcp_handler behaviour uuid srv rq = (JsonRpcError 400 (- 32000) ''No session ID provided. Initialize first.'', srv))"
proof -
  have a: "session_header rq = Some sid \<and> sid \<noteq> [] \<and> \<not> is_handshake rq \<and> transports srv sid = None \<longrightarrow>
      mcp_handler behaviour uuid srv rq = (JsonRpcError 400 (- 32000) ''Invalid session ID or session expired'', srv)"
    by (auto simp: mcp_handler_def find_transport_def is_handshake_def Let_def)
  have b: "session_header rq = Some sid \<and> sid \<noteq> [] \<and> \<not> is_handshake rq
        \<and> sessionIds srv t = Some sid \<longrightarrow>
      mcp_handler behaviour uuid (onclose srv t) rq = (JsonRpcError 400 (- 32000) ''Invalid session ID or session expired'', onclose srv t)"
    by (auto simp: mcp_handler_def find_transport_def is_handshake_def onclose_def Let_def)
  have f: "session_header rq = Some sid \<and> transports srv sid = None \<longrightarrow>
             find_transport srv (session_header rq) = None"
    by (simp add: find_transport_def)
  have d: "session_header rq = Some [] \<and> \<not> is_handshake rq \<longrightarrow>
        mcp_handler behaviour uuid srv rq = (JsonRpcError 400 (- 32000) ''No session ID provided. Initialize first.'', srv)"
    by (auto simp: mcp_handler_def find_transport_def is_handshake_def Let_def)
  have c: "session_header rq = Some sid \<and> is_handshake rq \<and> transports srv sid = None \<longrightarrow>
        (\<exists>out. fst (mcp_handler behaviour uuid srv rq) = Forwarded (created srv) out)
        \<and> created (snd (mcp_handler behaviour uuid srv rq)) = Suc (created srv)
        \<and> (behaviour = Accepts \<and> uuid \<noteq> [] \<longrightarrow>
             fst (mcp_handler behaviour uuid srv rq)
               = Forwarded (created srv) (Processed (Some uuid))
             \<and> transports (snd (mcp_handler behaviour uuid srv rq))
                 = (transports srv)(uuid \<mapsto> created srv))
        \<and> (behaviour \<noteq> Accepts \<longrightarrow>
             transports (snd (mcp_handler behaviour uuid srv rq)) = transports srv)"
  proof
    assume h: "session_header rq = Some sid \<and> is_handshake rq \<and> transports srv sid = None"
    then have "find_transport srv (session_header rq) = None"
      using f by simp
    with h show "(\<exists>out. fst (mcp_handler behaviour uuid srv rq) = Forwarded (created srv) out)
        \<and> created (snd (mcp_handler behaviour uuid srv rq)) = Suc (created srv)
        \<and> (behaviour = Accepts \<and> uuid \<noteq> [] \<longrightarrow>
             fst (mcp_handler behaviour uuid srv rq)
               = Forwarded (created srv) (Processed (Some uuid))
             \<and> transports (snd (mcp_handler behaviour uuid srv rq))
                 = (transports srv)(uuid \<mapsto> created srv))
        \<and> (behaviour \<noteq> Accepts \<longrightarrow>
             transports (snd (mcp_handler behaviour uuid srv rq)) = transports srv)"
      using handshake_creates_transport [of rq srv behaviour uuid] by simp
  qed
  show ?thesis
    by (intro conjI) (rule a, rule b, rule c, rule d)
qed

text \<open>
  An identifier that never existed, one whose transport was closed, a handshake with a
  stale identifier that the SDK accepts and one that it refuses, and an empty header.
\<close>

theorem invalid_session_witness:
  "mcp_handler Accepts ''uuid-2'' fresh_server (list_request ''uuid-0'')
     = (JsonRpcError 400 (- 32000) ''Invalid session ID or session expired'', fresh_server)
   \<and> mcp_handler Accepts ''uuid-2''
         (onclose (snd (run fresh_server [Request Accepts ''uuid-1'' initialize_request])) 0)
         (list_request ''uuid-1'')
     = (JsonRpcError 400 (- 32000) ''Invalid session ID or session expired'',
        onclose (snd (run fresh_server [Request Accepts ''uuid-1'' initialize_request])) 0)
   \<and> fst (mcp_handler Accepts ''uuid-2'' fresh_server (initialize_request\<lparr>session_header := Some ''stale''\<rparr>))
     = Forwarded 0 (Processed (Some ''uuid-2''))
   \<and> transports (snd (mcp_handler Accepts ''uuid-2'' fresh_server
                        (initialize_request\<lparr>session_header := Some ''stale''\<rparr>)))
     = [''uuid-2'' \<mapsto> 0]
   \<and> transports (snd (mcp_handler Refuses ''uuid-2'' fresh_server
                        (initialize_request\<lparr>session_header := Some ''stale''\<rparr>)))
     = Map.empty
   \<and> mcp_handler Accepts ''uuid-2'' fresh_server (list_request [])
     = (JsonRpcError 400 (- 32000) ''No session ID provided. Initialize first.'', fresh_server)"
proof -
  have h: "\<not> is_handshake (list_request sid)" for sid
    by (simp add: is_handshake_def list_request_def)
  have a: "session_header (list_request sid) = Some sid" for sid
    by (simp add: list_request_def)
  have e: "transports fresh_server sid = None" "created fresh_server = 0" for sid
    by (simp_all add: fresh_server_def)
  have s: "sessionIds (snd (run fresh_server [Request Accepts ''uuid-1'' initialize_request])) 0
             = Some ''uuid-1''"
    using handshake_run by simp
  have i: "session_header (initialize_request\<lparr>session_header := Some ''stale''\<rparr>) = Some ''stale''"
    "is_handshake (initialize_request\<lparr>session_header := Some ''stale''\<rparr>)"
    by (simp_all add: initialize_request_def is_handshake_def)
  have w1: "mcp_handler Accepts ''uuid-2'' fresh_server (list_request ''uuid-0'')
     = (JsonRpcError 400 (- 32000) ''Invalid session ID or session expired'', fresh_server)"
    using invalid_session [where rq = "list_request ''uuid-0''" and sid = "''uuid-0''"
        and srv = fresh_server and behaviour = Accepts and uuid = "''uuid-2''" and t = 0] a h e
    by simp
  have w2: "mcp_handler Accepts ''uuid-2''
         (onclose (snd (run fresh_server [Request Accepts ''uuid-1'' initialize_request])) 0)
         (list_request ''uuid-1'')
     = (JsonRpcError 400 (- 32000) ''Invalid session ID or session expired'',
        onclose (snd (run fresh_server [Request Accepts ''uuid-1'' initialize_request])) 0)"
    using invalid_session [where rq = "list_request ''uuid-1''" and sid = "''uuid-1''"
        and srv = "snd (run fresh_server [Request Accepts ''uuid-1'' initialize_request])"
        and behaviour = Accepts and uuid = "''uuid-2''" and t = 0] a h s
    by simp
  have w3: "fst (mcp_handler Accepts ''uuid-2'' fresh_server (initialize_request\<lparr>session_header := Some ''stale''\<rparr>))
     = Forwarded 0 (Processed (Some ''uuid-2''))
   \<and> transports (snd (mcp_handler Accepts ''uuid-2'' fresh_server
                        (initialize_request\<lparr>session_header := Some ''stale''\<rparr>)))
     = [''uuid-2'' \<mapsto> 0]"
    using invalid_session [where rq = "initialize_request\<lparr>session_header := Some ''stale''\<rparr>"
        and sid = "''stale''" and srv = fresh_server and behaviour = Accepts
        and uuid = "''uuid-2''" and t = 0] i e
    by (simp add: fresh_server_def)
  have w4: "transports (snd (mcp_handler Refuses ''uuid-2'' fresh_server
                        (initialize_request\<lparr>session_header := Some ''stale''\<rparr>)))
     = Map.empty"
    using invalid_session [where rq = "initialize_request\<lparr>session_header := Some ''stale''\<rparr>"
        and sid = "''stale''" and srv = fresh_server and behaviour = Refuses
        and uuid = "''uuid-2''" and t = 0] i e
    by (simp add: fresh_server_def)
  have w5: "mcp_handler Accepts ''uuid-2'' fresh_server (list_request [])
     = (JsonRpcError 400 (- 32000) ''No session ID provided. Initialize first.'', fresh_server)"
    using invalid_session [where rq = "list_request []" and sid = "[]"
        and srv = fresh_server and behaviour = Accepts and uuid = "''uuid-2''" and t = 0] a h
    by simp
  show ?thesis using w1 w2 w3 w4 w5 by simp
qed

text \<open>
  A \<^verbatim>\<open>POST\<close> of an initialize request that carries an identifier the table does not
  hold: the handler creates a transport, and the table gets a new session. A request
  with an empty session header: the answer is that of a missing identifier.
\<close>

theorem stale_handshake_counterexample:
  "fst (mcp_handler Accepts ''uuid-1'' fresh_server
          \<lparr>session_header = Some ''stale'', req_method = ''POST'', is_initialize = True\<rparr>)
     = Forwarded 0 (Processed (Some ''uuid-1''))
   \<and> transports (snd (mcp_handler Accepts ''uuid-1'' fresh_server
          \<lparr>session_header = Some ''stale'', req_method = ''POST'', is_initialize = True\<rparr>)) ''uuid-1''
     = Some 0
   \<and> fst (mcp_handler Accepts ''uuid-1'' fresh_server
          \<lparr>session_header = Some ''stale'', req_method = ''POST'', is_initialize = True\<rparr>)
     \<noteq> JsonRpcError 400 (- 32000) ''Invalid session ID or session expired''
   \<and> fst (mcp_handler Accepts ''uuid-1'' fresh_server
          \<lparr>session_header = Some '''', req_method = ''POST'', is_initialize = False\<rparr>)
     = JsonRpcError 400 (- 32000) ''No session ID provided. Initialize first.''
   \<and> fst (mcp_handler Accepts ''uuid-1'' fresh_server
          \<lparr>session_header = Some '''', req_method = ''POST'', is_initialize = False\<rparr>)
     \<noteq> JsonRpcError 400 (- 32000) ''Invalid session ID or session expired''"
  by (simp add: mcp_handler_def find_transport_def handleRequest_def is_handshake_def
        onsessioninitialized_def fresh_server_def Let_def)

end
